theory Spec2Isabelle
  imports Complex_Main "HOL-Library.Multiset"
begin

section \<open>Values shared by the training scripts\<close>

text \<open>
  Python exceptions are values. Every class listed here derives from \<open>Exception\<close>, so an
  \<open>except Exception\<close> handler catches each of them; \<open>except ValueError\<close> catches
  \<open>ValueError\<close> and its subclass \<open>NotFittedError\<close> only. The string is the message
  that \<open>str(e)\<close> returns.
\<close>

datatype exn_class = ValueError | NotFittedError | IndexError | KeyError | TypeError | OSError

type_synonym exn = "exn_class \<times> string"

fun is_ValueError :: "exn \<Rightarrow> bool" where
  "is_ValueError (ValueError, _) = True"
| "is_ValueError (NotFittedError, _) = True"
| "is_ValueError _ = False"

text \<open>
  A score is a Python float. Only its comparison \<open>score > mejor_score\<close> is used by the
  engine, so a float is a real number or one of the three special values, and \<open>fgt a b\<close>
  is the IEEE comparison \<open>a > b\<close> (false as soon as one side is NaN).
\<close>

datatype pyfloat = NaN | NegInf | Fin real | PosInf

fun fgt :: "pyfloat \<Rightarrow> pyfloat \<Rightarrow> bool" where
  "fgt NaN _ = False"
| "fgt _ NaN = False"
| "fgt NegInf _ = False"
| "fgt _ NegInf = True"
| "fgt PosInf PosInf = False"
| "fgt PosInf (Fin _) = True"
| "fgt (Fin _) PosInf = False"
| "fgt (Fin a) (Fin b) = (b < a)"

definition fge :: "pyfloat \<Rightarrow> pyfloat \<Rightarrow> bool" where
  "fge a b = (a = b \<or> fgt a b)"

section \<open>Pipelines (utils/incremental.py, utils/pipelines.py)\<close>

record gbr_params =
  n_estimators :: nat
  learning_rate :: real
  max_depth :: nat
  min_samples_split :: nat
  min_samples_leaf :: nat
  subsample :: real
  random_state :: nat

datatype step =
    SimpleImputer string
  | StandardScaler
  | MultiOutputRegressor gbr_params int

type_synonym hyper = "(string \<times> step) list"

text \<open>
  An estimator object: its constructor parameters and what \<open>fit\<close> has learned
  (\<open>None\<close> for an object no \<open>fit\<close> has touched). The scripts build sklearn
  \<open>Pipeline\<close> objects, whose parameters are the named steps; a stored model can be
  an object of another class, which the library tells from a pipeline.
\<close>

record 'l estimator =
  params :: hyper
  learned :: "'l option"

definition base_model :: gbr_params where
  "base_model = \<lparr> n_estimators = 300, learning_rate = 5 / 100, max_depth = 4,
     min_samples_split = 5, min_samples_leaf = 3, subsample = 8 / 10, random_state = 42 \<rparr>"

definition crear_pipeline_incremental :: "'l estimator" where
  "crear_pipeline_incremental =
     \<lparr> params = [(''imputer'', SimpleImputer ''median''), (''scaler'', StandardScaler),
                  (''model'', MultiOutputRegressor base_model (- 1))],
       learned = None \<rparr>"

definition crear_pipeline_multioutput :: "'l estimator" where
  "crear_pipeline_multioutput =
     \<lparr> params = [(''imputer'', SimpleImputer ''median''), (''scaler'', StandardScaler),
                  (''model'', MultiOutputRegressor base_model (- 1))],
       learned = None \<rparr>"

text \<open>
  \<open>sklearn.base.clone\<close>: a new object with a copy of the parameters and nothing
  learned; it shares nothing with the object it was made from.
\<close>

definition clone :: "'l estimator \<Rightarrow> 'l estimator" where
  "clone m = \<lparr> params = params m, learned = None \<rparr>"

section \<open>The library and the random generator as parameters\<close>

record cv_metrics =
  r2_mean :: pyfloat
  r2_std :: pyfloat
  rmse_mean :: pyfloat
  rmse_std :: pyfloat
  mse_mean :: pyfloat
  mse_std :: pyfloat

record val_metrics =
  v_r2 :: pyfloat
  v_rmse :: pyfloat
  v_mse :: pyfloat

datatype jval = JNum pyfloat | JNone | JStr string

type_synonym resultados = "(string \<times> (string \<times> jval) list) list"

text \<open>
  scikit-learn, numpy, matplotlib and the file system are not part of the repository; what
  they compute is a parameter. \<open>'l\<close> is the learned state of a pipeline, \<open>'a\<close> a row of
  X and \<open>'b\<close> a row of y.
  \<^item> \<open>fit_effect p l X y\<close> is \<open>modelo.fit(X, y)\<close> on an object with parameters \<open>p\<close> and
    learned state \<open>l\<close>: the learned state it leaves behind (it mutates the object in
    place, also when it raises part-way) and the exception it raises, if any;
  \<^item> \<open>r2_predict p l X y\<close> is \<open>r2_score(y, modelo.predict(X))\<close>;
  \<^item> \<open>has_named_steps p\<close> is \<open>hasattr(modelo, 'named_steps')\<close>, true of a
    \<open>Pipeline\<close> and false of a bare estimator;
  \<^item> \<open>imputer_fitted l\<close> is \<open>hasattr(modelo.named_steps['imputer'], 'statistics_')\<close>;
  \<^item> \<open>cv_block\<close> and \<open>val_block\<close> are the bodies of the two \<open>try\<close> statements of
    \<open>evaluar_modelo\<close>, which only call the library;
  \<^item> \<open>informe_block\<close> is the part of \<open>generar_informe\<close> after the refit check
    (prediction, plots, HTML file), \<open>dump_json\<close> the writing of the metrics file.
\<close>

record ('l, 'a, 'b) lib =
  fit_effect :: "hyper \<Rightarrow> 'l option \<Rightarrow> 'a list \<Rightarrow> 'b list \<Rightarrow> 'l option \<times> exn option"
  r2_predict :: "hyper \<Rightarrow> 'l option \<Rightarrow> 'a list \<Rightarrow> 'b list \<Rightarrow> exn + pyfloat"
  has_named_steps :: "hyper \<Rightarrow> bool"
  imputer_fitted :: "'l option \<Rightarrow> bool"
  cv_block :: "hyper \<Rightarrow> 'l option \<Rightarrow> 'a list \<Rightarrow> 'b list \<Rightarrow> nat \<Rightarrow> exn + cv_metrics"
  val_block :: "hyper \<Rightarrow> 'l option \<Rightarrow> 'a list \<Rightarrow> 'b list \<Rightarrow> exn + val_metrics"
  informe_block :: "hyper \<Rightarrow> 'l option \<Rightarrow> 'a list \<Rightarrow> 'b list \<Rightarrow> exn option"
  dump_json :: "resultados \<Rightarrow> exn option"

text \<open>
  The random generator: \<open>draw k n size\<close> is the result of the \<open>k\<close>-th call
  \<open>np.random.choice(n, size, replace=False)\<close>, \<open>shuffle e xs\<close> the content of the array
  \<open>xs\<close> after \<open>np.random.shuffle\<close> in epoch \<open>e\<close>.
\<close>

record rng =
  draw :: "nat \<Rightarrow> nat \<Rightarrow> nat \<Rightarrow> nat list"
  shuffle :: "nat \<Rightarrow> nat list \<Rightarrow> nat list"

definition rng_ok :: "rng \<Rightarrow> nat \<Rightarrow> bool" where
  "rng_ok R n = ((\<forall>k sz. sz \<le> n \<longrightarrow>
        length (draw R k n sz) = sz \<and> distinct (draw R k n sz) \<and>
        set (draw R k n sz) \<subseteq> {..<n}) \<and>
     (\<forall>e xs. mset (shuffle R e xs) = mset xs))"

definition np_choice :: "(nat \<Rightarrow> nat \<Rightarrow> nat list) \<Rightarrow> nat \<Rightarrow> int \<Rightarrow> exn + nat list" where
  "np_choice d n sz =
     (if sz < 0 then Inl (ValueError, ''negative dimensions are not allowed'')
      else if int n < sz then Inl (ValueError, ''Cannot take a larger sample than population'')
      else Inr (d n (nat sz)))"

text \<open>\<open>X[idx]\<close> for an index array: a new array of the rows, IndexError out of range.\<close>

definition take_rows :: "'a list \<Rightarrow> nat list \<Rightarrow> exn + 'a list" where
  "take_rows X idx =
     (if list_all (\<lambda>i. i < length X) idx then Inr (map (\<lambda>i. X ! i) idx)
      else Inl (IndexError, ''index out of bounds''))"

text \<open>\<open>xs[a:b]\<close> for \<open>0 \<le> a\<close> and \<open>0 \<le> b\<close>.\<close>

definition slice :: "'a list \<Rightarrow> nat \<Rightarrow> nat \<Rightarrow> 'a list" where
  "slice xs a b = take (b - a) (drop a xs)"

text \<open>\<open>range(start, n, B)\<close> for a positive step.\<close>

function range_step :: "nat \<Rightarrow> nat \<Rightarrow> nat \<Rightarrow> nat list" where
  "range_step start n B =
     (if start < n \<and> 0 < B then start # range_step (start + B) n B else [])"
  by pat_completeness auto
termination
  by (relation "measure (\<lambda>(start, n, B). n - start)") auto

declare range_step.simps [simp del]

section \<open>The incremental engine (utils/incremental.py)\<close>

text \<open>
  What a run does that can be observed: the lines it logs and the calls of \<open>fit\<close> it
  makes (on which object, with the rows of which indices).
\<close>

datatype event =
    FitCall nat "nat list"
  | EpochStart nat int
  | Progress nat pyfloat
  | BatchError nat nat exn
  | BestScore pyfloat
  | ReportError exn

text \<open>
  The objects of a run live in a store: \<open>heap s ! r\<close> is the object behind reference
  \<open>r\<close>. \<open>modelo\<close> and \<open>mejor_modelo\<close> are references, \<open>fit\<close> updates the object in
  place and \<open>clone\<close> allocates a new one.
\<close>

record 'l estado =
  heap :: "'l estimator list"
  mejor_score :: pyfloat
  mejor_modelo :: "nat option"
  trace :: "event list"

definition log_event :: "event \<Rightarrow> 'l estado \<Rightarrow> 'l estado" where
  "log_event ev s = s\<lparr> trace := trace s @ [ev] \<rparr>"

text \<open>
  \<open>obj.fit(Xb, yb)\<close> on the object behind \<open>r\<close>: the call is traced, the object is
  updated in place, and the exception (if any) is returned.
\<close>

definition fit_ref ::
  "('l, 'a, 'b) lib \<Rightarrow> nat \<Rightarrow> nat list \<Rightarrow> 'a list \<Rightarrow> 'b list \<Rightarrow> 'l estado \<Rightarrow> 'l estado \<times> exn option" where
  "fit_ref L r idx Xb yb s =
     (let m = heap s ! r;
          res = fit_effect L (params m) (learned m) Xb yb
      in ((log_event (FitCall r idx) s)\<lparr> heap := (heap s)[r := m\<lparr> learned := fst res \<rparr>] \<rparr>, snd res))"

text \<open>
  The body of the \<open>try\<close> of one batch (lines 97 to 109), with the live pipeline behind
  \<open>live\<close>: the state when the body ends, and the exception that ended it, if any.
\<close>

definition batch_body ::
  "('l, 'a, 'b) lib \<Rightarrow> nat \<Rightarrow> 'a list \<Rightarrow> 'b list \<Rightarrow> nat \<Rightarrow> nat \<Rightarrow> nat \<Rightarrow> nat list \<Rightarrow>
   'a list \<Rightarrow> 'b list \<Rightarrow> 'l estado \<Rightarrow> 'l estado \<times> exn option" where
  "batch_body L live X_eval y_eval B start_idx end_idx idx Xb yb s =
     (case fit_ref L live idx Xb yb s of
        (s1, Some e) \<Rightarrow> (s1, Some e)
      | (s1, None) \<Rightarrow>
          (case r2_predict L (params (heap s1 ! live)) (learned (heap s1 ! live)) X_eval y_eval of
             Inl e \<Rightarrow> (s1, Some e)
           | Inr score \<Rightarrow>
               (case (if fgt score (mejor_score s1)
                      then fit_ref L (length (heap s1)) idx Xb yb
                             (s1\<lparr> mejor_score := score,
                                  mejor_modelo := Some (length (heap s1)),
                                  heap := heap s1 @ [clone (heap s1 ! live)] \<rparr>)
                      else (s1, None)) of
                  (s2, Some e) \<Rightarrow> (s2, Some e)
                | (s2, None) \<Rightarrow>
                    (if (start_idx + B) mod (B * 10) = 0
                     then (log_event (Progress end_idx score) s2, None)
                     else (s2, None)))))"

text \<open>The \<open>try\<close> with its handler: an exception is logged and the loop continues.\<close>

definition batch_step ::
  "('l, 'a, 'b) lib \<Rightarrow> nat \<Rightarrow> 'a list \<Rightarrow> 'b list \<Rightarrow> nat \<Rightarrow> nat \<Rightarrow> nat \<Rightarrow> nat list \<Rightarrow>
   'a list \<Rightarrow> 'b list \<Rightarrow> 'l estado \<Rightarrow> 'l estado" where
  "batch_step L live X_eval y_eval B start_idx end_idx idx Xb yb s =
     (case batch_body L live X_eval y_eval B start_idx end_idx idx Xb yb s of
        (s', None) \<Rightarrow> s'
      | (s', Some e) \<Rightarrow> log_event (BatchError start_idx end_idx e) s')"

text \<open>
  The inner \<open>for start_idx in range(0, n_samples, batch_size)\<close>, over the starts still to
  come. The two index expressions are outside the \<open>try\<close>: an IndexError there ends the run.
\<close>

fun run_batches ::
  "('l, 'a, 'b) lib \<Rightarrow> nat \<Rightarrow> 'a list \<Rightarrow> 'b list \<Rightarrow> 'a list \<Rightarrow> 'b list \<Rightarrow> nat \<Rightarrow> nat list \<Rightarrow>
   nat list \<Rightarrow> 'l estado \<Rightarrow> exn + 'l estado" where
  "run_batches L live X_eval y_eval X y B indices [] s = Inr s"
| "run_batches L live X_eval y_eval X y B indices (start_idx # rest) s =
     (let end_idx = min (start_idx + B) (length X);
          batch_indices = slice indices start_idx end_idx
      in case take_rows X batch_indices of
           Inl e \<Rightarrow> Inl e
         | Inr X_batch \<Rightarrow>
             (case take_rows y batch_indices of
                Inl e \<Rightarrow> Inl e
              | Inr y_batch \<Rightarrow>
                  run_batches L live X_eval y_eval X y B indices rest
                    (batch_step L live X_eval y_eval B start_idx end_idx batch_indices
                       X_batch y_batch s)))"

text \<open>
  The outer \<open>for epoch in range(n_epochs)\<close>: \<open>epoch\<close> is the loop variable, \<open>k\<close> the
  number of epochs still to run, \<open>indices\<close> the array that every epoch shuffles again.
  \<open>range(0, n_samples, 0)\<close> raises ValueError.
\<close>

fun epochs ::
  "('l, 'a, 'b) lib \<Rightarrow> rng \<Rightarrow> nat \<Rightarrow> 'a list \<Rightarrow> 'b list \<Rightarrow> 'a list \<Rightarrow> 'b list \<Rightarrow> nat \<Rightarrow> int \<Rightarrow>
   nat \<Rightarrow> nat \<Rightarrow> nat list \<Rightarrow> 'l estado \<Rightarrow> exn + 'l estado" where
  "epochs L R live X_eval y_eval X y B n_epochs epoch 0 indices s = Inr s"
| "epochs L R live X_eval y_eval X y B n_epochs epoch (Suc k) indices s =
     (let s1 = log_event (EpochStart (epoch + 1) n_epochs) s;
          indices' = shuffle R epoch indices
      in if B = 0 then Inl (ValueError, ''range() arg 3 must not be zero'')
         else (case run_batches L live X_eval y_eval X y B indices'
                      (range_step 0 (length X) B) s1 of
                 Inl e \<Rightarrow> Inl e
               | Inr s2 \<Rightarrow>
                   epochs L R live X_eval y_eval X y B n_epochs (epoch + 1) k indices' s2))"

section \<open>Evaluation and report (utils/evaluacion.py)\<close>

definition cv_entry :: "cv_metrics \<Rightarrow> (string \<times> jval) list" where
  "cv_entry c = [(''r2_mean'', JNum (r2_mean c)), (''r2_std'', JNum (r2_std c)),
     (''rmse_mean'', JNum (rmse_mean c)), (''rmse_std'', JNum (rmse_std c)),
     (''mse_mean'', JNum (mse_mean c)), (''mse_std'', JNum (mse_std c))]"

definition cv_unavailable :: "exn \<Rightarrow> (string \<times> jval) list" where
  "cv_unavailable e = [(''r2_mean'', JNone), (''r2_std'', JNone), (''rmse_mean'', JNone),
     (''rmse_std'', JNone), (''mse_mean'', JNone), (''mse_std'', JNone),
     (''error'', JStr (snd e))]"

definition val_entry :: "val_metrics \<Rightarrow> (string \<times> jval) list" where
  "val_entry v = [(''r2'', JNum (v_r2 v)), (''rmse'', JNum (v_rmse v)), (''mse'', JNum (v_mse v))]"

definition val_unavailable :: "(string \<times> jval) list" where
  "val_unavailable = [(''r2'', JNone), (''rmse'', JNone), (''mse'', JNone)]"

text \<open>
  \<open>evaluar_modelo(modelo, X, y, X_val, y_val, cv)\<close>. The first \<open>try\<close> has the handler
  \<open>except Exception\<close>, the second one \<open>except ValueError\<close>: any other exception of the
  second body leaves the function.
\<close>

definition evaluar_modelo ::
  "('l, 'a, 'b) lib \<Rightarrow> 'l estimator \<Rightarrow> 'a list \<Rightarrow> 'b list \<Rightarrow> 'a list option \<Rightarrow> 'b list option \<Rightarrow>
   nat \<Rightarrow> exn + resultados" where
  "evaluar_modelo L modelo X y X_val y_val cv =
     (let resultados =
            [(''cv'', (case cv_block L (params modelo) (learned modelo) X y cv of
                         Inr c \<Rightarrow> cv_entry c
                       | Inl e \<Rightarrow> cv_unavailable e))]
      in case (X_val, y_val) of
           (Some Xv, Some yv) \<Rightarrow>
             (case val_block L (params modelo) (learned modelo) Xv yv of
                Inr v \<Rightarrow> Inr (resultados @ [(''validation'', val_entry v)])
              | Inl e \<Rightarrow>
                  (if is_ValueError e
                   then Inr (resultados @ [(''validation'', val_unavailable)])
                   else Inl e))
         | _ \<Rightarrow> Inr resultados)"

text \<open>
  \<open>generar_informe(modelo, X_val, y_val, directorio_salida)\<close> on the object behind \<open>r\<close>;
  \<open>idx\<close> names the rows of \<open>X_val\<close> for the trace. Line 80 refits the model when it
  has no \<open>named_steps\<close> or when its imputer has no \<open>statistics_\<close>; the second test is
  evaluated for an object with \<open>named_steps\<close> only, and
  \<open>modelo.named_steps['imputer']\<close> is a KeyError on a pipeline with no such step. The
  handler of the function prints and raises again.
\<close>

definition generar_informe ::
  "('l, 'a, 'b) lib \<Rightarrow> nat \<Rightarrow> nat list \<Rightarrow> 'a list \<Rightarrow> 'b list \<Rightarrow> 'l estado \<Rightarrow> 'l estado \<times> exn option" where
  "generar_informe L r idx X_val y_val s =
     (case (if \<not> has_named_steps L (params (heap s ! r)) then Inr True
            else (case map_of (params (heap s ! r)) ''imputer'' of
                    None \<Rightarrow> Inl (KeyError, ''imputer'')
                  | Some _ \<Rightarrow> Inr (\<not> imputer_fitted L (learned (heap s ! r))))) of
        Inl e \<Rightarrow> (s, Some e)
      | Inr refit \<Rightarrow>
          (case (if refit then fit_ref L r idx X_val y_val s else (s, None)) of
             (s1, Some e) \<Rightarrow> (s1, Some e)
           | (s1, None) \<Rightarrow>
               (s1, informe_block L (params (heap s1 ! r)) (learned (heap s1 ! r)) X_val y_val)))"

section \<open>The run as a whole\<close>

text \<open>Lines 117 to 131: the reports, inside a \<open>try\<close> whose handler only logs.\<close>

definition finalizar ::
  "('l, 'a, 'b) lib \<Rightarrow> nat \<Rightarrow> nat list \<Rightarrow> 'a list \<Rightarrow> 'b list \<Rightarrow> 'l estado \<Rightarrow> 'l estado" where
  "finalizar L live idx_eval X_eval y_eval s =
     (let modelo_final = (case mejor_modelo s of Some c \<Rightarrow> c | None \<Rightarrow> live)
      in case evaluar_modelo L (heap s ! modelo_final) X_eval y_eval None None 5 of
           Inl e \<Rightarrow> log_event (ReportError e) s
         | Inr resultados \<Rightarrow>
             (case dump_json L resultados of
                Some e \<Rightarrow> log_event (ReportError e) s
              | None \<Rightarrow>
                  (case generar_informe L modelo_final idx_eval X_eval y_eval s of
                     (s1, Some e) \<Rightarrow> log_event (ReportError e) s1
                   | (s1, None) \<Rightarrow> s1)))"

text \<open>The holdout of a run on \<open>n\<close> rows: the second draw, of \<open>min(1000, n)\<close> indices.\<close>

definition indices_eval :: "rng \<Rightarrow> nat \<Rightarrow> exn + nat list" where
  "indices_eval R n = np_choice (draw R 1) n (int (min 1000 n))"

text \<open>
  Lines 59 to 72 and the initialisation of lines 77 and 78: the model is created when none
  is given, and fitted on \<open>min(batch_size * 10, n_samples)\<close> rows drawn without
  replacement. \<open>X\<close> and \<open>y\<close> are the arrays of rows that lines 60 and 61 make of
  the arguments. The live pipeline is the object behind reference 0. Nothing catches an
  exception here.
\<close>

definition warm_start ::
  "('l, 'a, 'b) lib \<Rightarrow> rng \<Rightarrow> 'l estimator option \<Rightarrow> 'a list \<Rightarrow> 'b list \<Rightarrow> int \<Rightarrow>
   exn + 'l estado" where
  "warm_start L R modelo X y batch_size =
     (let m0 = (case modelo of None \<Rightarrow> crear_pipeline_incremental | Some m \<Rightarrow> m);
          initial_size = min (batch_size * 10) (int (length X))
      in case np_choice (draw R 0) (length X) initial_size of
           Inl e \<Rightarrow> Inl e
         | Inr indices_iniciales \<Rightarrow>
             (case take_rows X indices_iniciales of
                Inl e \<Rightarrow> Inl e
              | Inr X_ini \<Rightarrow>
                  (case take_rows y indices_iniciales of
                     Inl e \<Rightarrow> Inl e
                   | Inr y_ini \<Rightarrow>
                       (case fit_ref L 0 indices_iniciales X_ini y_ini
                               \<lparr> heap = [m0], mejor_score = NegInf, mejor_modelo = None,
                                 trace = [] \<rparr> of
                          (s0, Some e) \<Rightarrow> Inl e
                        | (s0, None) \<Rightarrow> Inr s0))))"

text \<open>
  \<open>entrenar_por_lotes(modelo, X, y, batch_size, n_epochs, directorio_salida)\<close>: the
  reference returned and the final state, or the exception that left the function.
\<close>

definition entrenar_por_lotes ::
  "('l, 'a, 'b) lib \<Rightarrow> rng \<Rightarrow> 'l estimator option \<Rightarrow> 'a list \<Rightarrow> 'b list \<Rightarrow> int \<Rightarrow> int \<Rightarrow>
   exn + nat \<times> 'l estado" where
  "entrenar_por_lotes L R modelo X y batch_size n_epochs =
     (case warm_start L R modelo X y batch_size of
        Inl e \<Rightarrow> Inl e
      | Inr s0 \<Rightarrow>
          (case indices_eval R (length X) of
             Inl e \<Rightarrow> Inl e
           | Inr idx_eval \<Rightarrow>
               (case take_rows X idx_eval of
                  Inl e \<Rightarrow> Inl e
                | Inr X_eval \<Rightarrow>
                    (case take_rows y idx_eval of
                       Inl e \<Rightarrow> Inl e
                     | Inr y_eval \<Rightarrow>
                         (case epochs L R 0 X_eval y_eval X y (nat batch_size) n_epochs 0
                                 (nat n_epochs) [0..<length X] s0 of
                            Inl e \<Rightarrow> Inl e
                          | Inr s1 \<Rightarrow>
                              (let s2 = finalizar L 0 idx_eval X_eval y_eval
                                          (log_event (BestScore (mejor_score s1)) s1)
                               in Inr ((case mejor_modelo s2 of Some c \<Rightarrow> c | None \<Rightarrow> 0),
                                       s2)))))))"

section \<open>The training script (entrenar_modelo.py)\<close>

text \<open>
  The feature matrix is a numpy array (a list of rows), a pandas DataFrame (named columns,
  in order) or a plain list of rows.
\<close>

type_synonym 'c df = "(string \<times> 'c list) list"

datatype 'c tabular = NdArray "'c list list" | DataFrame "'c df" | PyList "'c list list"

text \<open>
  \<open>imputar_valores_faltantes(X)\<close>; \<open>fit_transform\<close> is
  \<open>SimpleImputer(strategy='mean').fit_transform\<close>.
\<close>

definition imputar_valores_faltantes ::
  "('c list list \<Rightarrow> exn + 'c list list) \<Rightarrow> 'c tabular \<Rightarrow> exn + 'c tabular" where
  "imputar_valores_faltantes fit_transform X =
     (case X of
        NdArray a \<Rightarrow> (case fit_transform a of Inl e \<Rightarrow> Inl e | Inr a' \<Rightarrow> Inr (NdArray a'))
      | _ \<Rightarrow> Inr X)"

text \<open>
  \<open>X[columnas]\<close> on a DataFrame with a list of names: the named columns in the order of
  the list, KeyError when a name is not a column.
\<close>

definition df_getitem :: "'c df \<Rightarrow> string list \<Rightarrow> exn + 'c df" where
  "df_getitem X cols =
     (if list_all (\<lambda>c. c \<in> fst ` set X) cols
      then Inr (concat (map (\<lambda>c. filter (\<lambda>col. fst col = c) X) cols))
      else Inl (KeyError, ''not in index''))"

text \<open>
  The stored bundle is a dictionary; \<open>b_modelo\<close> and \<open>b_columnas\<close> are its entries
  \<open>'modelo'\<close> and \<open>'columnas'\<close> (\<open>None\<close> for a missing key).
\<close>

record 'l stored_dict =
  b_modelo :: "'l estimator option"
  b_columnas :: "string list option"

datatype aviso = ArityMismatch nat nat | FeatureMismatch "string set" "string set"

text \<open>
  The branch \<open>if args.incremental:\<close> of \<open>main\<close>, from line 76 to line 98: the pipeline and
  the feature matrix it hands to \<open>entrenar_por_lotes\<close> and the warnings it prints, or
  the exception that ends the script and the warnings printed before it.
  \<open>n_outputs_attr m\<close> is the attribute \<open>m.n_outputs_\<close> when the object has one;
  \<open>archivo\<close> is \<open>None\<close> when no file exists at \<open>ruta_modelo\<close>, else the result of
  \<open>joblib.load\<close>; \<open>y_shape\<close> is \<open>y.shape\<close>; \<open>columnas_procesadas\<close> is the third
  result of \<open>seleccionar_columnas_entrenamiento\<close>.
\<close>

definition main_incremental ::
  "('l estimator \<Rightarrow> nat option) \<Rightarrow> ('c list list \<Rightarrow> exn + 'c list list) \<Rightarrow>
   (exn + 'l stored_dict) option \<Rightarrow> 'c df \<Rightarrow> nat list \<Rightarrow> string list \<Rightarrow>
   exn \<times> aviso list + 'l estimator \<times> 'c tabular \<times> aviso list" where
  "main_incremental n_outputs_attr fit_transform archivo X y_shape columnas_procesadas =
     (case (case archivo of
              None \<Rightarrow> Inr (crear_pipeline_multioutput, X, [])
            | Some (Inl e) \<Rightarrow> Inl (e, [])
            | Some (Inr modelo_dict) \<Rightarrow>
                (case b_modelo modelo_dict of
                   None \<Rightarrow> Inl ((KeyError, ''modelo''), [])
                 | Some modelo \<Rightarrow>
                     (case (case n_outputs_attr modelo of
                              None \<Rightarrow> Inr (modelo, [])
                            | Some k \<Rightarrow>
                                (if length y_shape \<le> 1
                                 then Inl ((IndexError, ''tuple index out of range''), [])
                                 else if k \<noteq> y_shape ! 1
                                 then Inr (crear_pipeline_multioutput,
                                           [ArityMismatch k (y_shape ! 1)])
                                 else Inr (modelo, []))) of
                        Inl e \<Rightarrow> Inl e
                      | Inr (modelo', avisos) \<Rightarrow>
                          (case b_columnas modelo_dict of
                             None \<Rightarrow> Inr (modelo', X, avisos)
                           | Some columnas_modelo \<Rightarrow>
                               (if columnas_modelo \<noteq> [] \<and>
                                   set columnas_modelo \<noteq> set columnas_procesadas
                                then (case df_getitem X columnas_modelo of
                                        Inl e \<Rightarrow>
                                          Inl (e, avisos @
                                            [FeatureMismatch
                                               (set columnas_modelo - set columnas_procesadas)
                                               (set columnas_procesadas - set columnas_modelo)])
                                      | Inr X' \<Rightarrow>
                                          Inr (modelo', X', avisos @
                                            [FeatureMismatch
                                               (set columnas_modelo - set columnas_procesadas)
                                               (set columnas_procesadas - set columnas_modelo)]))
                                else Inr (modelo', X, avisos)))))) of
        Inl e \<Rightarrow> Inl e
      | Inr (modelo, X1, avisos) \<Rightarrow>
          (case imputar_valores_faltantes fit_transform (DataFrame X1) of
             Inl e \<Rightarrow> Inl (e, avisos)
           | Inr X2 \<Rightarrow> Inr (modelo, X2, avisos)))"

section \<open>Reading a run\<close>

text \<open>
  The batches of one epoch, from the array \<open>indices\<close> as the shuffle left it, and the
  batches of \<open>k\<close> epochs in a row, as the two loops enumerate them.
\<close>

definition batches_of :: "nat list \<Rightarrow> nat \<Rightarrow> nat \<Rightarrow> nat list list" where
  "batches_of indices n B =
     map (\<lambda>start_idx. slice indices start_idx (min (start_idx + B) n)) (range_step 0 n B)"

fun all_batches :: "rng \<Rightarrow> nat \<Rightarrow> nat \<Rightarrow> nat \<Rightarrow> nat \<Rightarrow> nat list \<Rightarrow> nat list list" where
  "all_batches R n B epoch 0 indices = []"
| "all_batches R n B epoch (Suc k) indices =
     batches_of (shuffle R epoch indices) n B @
     all_batches R n B (epoch + 1) k (shuffle R epoch indices)"

text \<open>
  Of a trace: the index lists of the \<open>fit\<close> calls on the object behind \<open>r\<close>, and the part
  of the trace that the two loops wrote, from the first epoch line to the line with the
  best score that follows the loops.
\<close>

fun is_EpochStart :: "event \<Rightarrow> bool" where
  "is_EpochStart (EpochStart _ _) = True"
| "is_EpochStart _ = False"

fun is_BestScore :: "event \<Rightarrow> bool" where
  "is_BestScore (BestScore _) = True"
| "is_BestScore _ = False"

fun fits_of :: "nat \<Rightarrow> event list \<Rightarrow> nat list list" where
  "fits_of r [] = []"
| "fits_of r (FitCall r' idx # es) = (if r' = r then idx # fits_of r es else fits_of r es)"
| "fits_of r (_ # es) = fits_of r es"

definition loop_events :: "event list \<Rightarrow> event list" where
  "loop_events tr =
     takeWhile (\<lambda>e. \<not> is_BestScore e) (dropWhile (\<lambda>e. \<not> is_EpochStart e) tr)"

text \<open>
  Of a trace: the references of the \<open>fit\<close> calls on objects other than \<open>r\<close>. In
  the loops these are the fits of line 106, one for every checkpoint that was set.
\<close>

fun ckpt_fits :: "nat \<Rightarrow> event list \<Rightarrow> nat list" where
  "ckpt_fits r [] = []"
| "ckpt_fits r (FitCall r' idx # es) = (if r' = r then ckpt_fits r es else r' # ckpt_fits r es)"
| "ckpt_fits r (_ # es) = ckpt_fits r es"

text \<open>
  Whether the reports of a run refit the final model \<open>m\<close> on the holdout: the metrics
  were computed and written, and line 80 of evaluacion.py finds the model without
  \<open>named_steps\<close> or with an imputer that was not fitted.
\<close>

definition report_refits :: "('l, 'a, 'b) lib \<Rightarrow> 'l estimator \<Rightarrow> 'a list \<Rightarrow> 'b list \<Rightarrow> bool" where
  "report_refits L m X_eval y_eval =
     (case evaluar_modelo L m X_eval y_eval None None 5 of
        Inl e \<Rightarrow> False
      | Inr resultados \<Rightarrow>
          dump_json L resultados = None \<and>
          (\<not> has_named_steps L (params m) \<or>
           (map_of (params m) ''imputer'' \<noteq> None \<and> \<not> imputer_fitted L (learned m))))"

text \<open>
  What holds of the checkpoint between two batches: no checkpoint and a best score of
  minus infinity, or a checkpoint that is an object of its own and a best score above
  minus infinity.
\<close>

definition ckpt_inv :: "nat \<Rightarrow> 'l estado \<Rightarrow> bool" where
  "ckpt_inv live s =
     (live < length (heap s) \<and>
      (case mejor_modelo s of
         None \<Rightarrow> mejor_score s = NegInf
       | Some c \<Rightarrow> c < length (heap s) \<and> c \<noteq> live \<and> fgt (mejor_score s) NegInf))"

text \<open>An event that a batch step can write.\<close>

definition inner_event :: "event \<Rightarrow> bool" where
  "inner_event e = (\<not> is_EpochStart e \<and> \<not> is_BestScore e)"

text \<open>
  The reading of the holdout that keeps it out of the fits: no batch fit of the loops on
  the live pipeline has a row of \<open>ev\<close>.
\<close>

definition fits_avoid_holdout :: "nat list \<Rightarrow> event list \<Rightarrow> bool" where
  "fits_avoid_holdout ev tr =
     list_all (\<lambda>b. set b \<inter> set ev = {}) (fits_of 0 (loop_events tr))"

section \<open>Concrete inputs\<close>

text \<open>
  A small library to run the definitions on: \<open>fit\<close> learns the number of rows it was given
  and raises on a batch whose targets contain 13 (leaving the object as it was), the score
  is a tenth of the number of rows learned, every object is a pipeline,
  cross-validation always fails, and the holdout metrics fail with a ValueError on arrays
  of different lengths, with a NotFittedError on a pipeline that was never fitted, and
  with a TypeError on a holdout row 99, which stands for a cell that is not a number
  (pandas' NA in an object column, which numpy's conversion to float refuses).
\<close>

definition demo_lib :: "(nat, nat, nat) lib" where
  "demo_lib = \<lparr>
     fit_effect = (\<lambda>p l Xb yb.
        if 13 \<in> set yb then (l, Some (ValueError, ''Input y contains NaN''))
        else (Some (length Xb), None)),
     r2_predict = (\<lambda>p l Xe ye.
        case l of None \<Rightarrow> Inl (NotFittedError, ''not fitted'')
                | Some k \<Rightarrow> Inr (Fin (of_nat k / 10))),
     has_named_steps = (\<lambda>p. True),
     imputer_fitted = (\<lambda>l. l \<noteq> None),
     cv_block = (\<lambda>p l Xe ye cv. Inl (ValueError, ''n_splits greater than samples'')),
     val_block = (\<lambda>p l Xe ye.
        if length Xe \<noteq> length ye then Inl (ValueError, ''inconsistent numbers of samples'')
        else if 99 \<in> set Xe
        then Inl (TypeError, ''float() argument must be a string or a real number'')
        else (case l of None \<Rightarrow> Inl (NotFittedError, ''not fitted'')
                      | Some k \<Rightarrow> Inr \<lparr> v_r2 = Fin 0, v_rmse = Fin 1, v_mse = Fin 1 \<rparr>)),
     informe_block = (\<lambda>p l Xe ye. None),
     dump_json = (\<lambda>r. None) \<rparr>"

text \<open>A generator that draws the first indices and reverses the array at every shuffle.\<close>

definition demo_rng :: rng where
  "demo_rng = \<lparr> draw = (\<lambda>k n sz. [0..<sz]), shuffle = (\<lambda>e xs. rev xs) \<rparr>"

text \<open>
  An sklearn \<open>Pipeline\<close> defines no attribute \<open>n_outputs_\<close>; \<open>demo_n_outputs\<close> is an
  estimator class that has it, for a learned state that is the number of target columns
  of the last \<open>fit\<close>.
\<close>

definition pipeline_n_outputs :: "'l estimator \<Rightarrow> nat option" where
  "pipeline_n_outputs m = None"

definition demo_n_outputs :: "nat estimator \<Rightarrow> nat option" where
  "demo_n_outputs m = learned m"

definition demo_stored :: "nat estimator" where
  "demo_stored = \<lparr> params = [(''imputer'', SimpleImputer ''median''),
                                (''scaler'', StandardScaler)],
                     learned = Some 2 \<rparr>"

text \<open>
  The feature frame of a run whose target is the column \<open>conversions\<close>:
  \<open>seleccionar_columnas_entrenamiento\<close> keeps the target columns out of the frame and
  returns the target names as its third result, which is also the list that an earlier run
  stored under \<open>'columnas'\<close>.
\<close>

definition demo_df :: "real option df" where
  "demo_df = [(''sessions'', [Some 1, None]), (''users'', [Some 2, Some 3]),
              (''views'', [None, None])]"

definition failing_imputer :: "real option list list \<Rightarrow> exn + real option list list" where
  "failing_imputer a = Inl (TypeError, ''imputer called'')"

text \<open>
  The same library with a \<open>fit\<close> that raises on fewer than two rows and leaves the
  object unfitted.
\<close>

definition flaky_lib :: "(nat, nat, nat) lib" where
  "flaky_lib = demo_lib\<lparr> fit_effect := (\<lambda>p l Xb yb.
        if length Xb < 2 then (None, Some (ValueError, ''at least 2 samples are required''))
        else (Some (length Xb), None)) \<rparr>"




text \<open>The state of a run on three rows after the warm start.\<close>

definition demo_params :: hyper where
  "demo_params = params (crear_pipeline_incremental :: nat estimator)"

definition demo_s0 :: "nat estado" where
  "demo_s0 = \<lparr> heap = [\<lparr> params = demo_params, learned = Some 3 \<rparr>],
               mejor_score = NegInf, mejor_modelo = None, trace = [FitCall 0 [0, 1, 2]] \<rparr>"

section \<open>Facts about the engine\<close>

subsection \<open>Scores and traces\<close>

lemma fgt_NegInf: "fgt a b \<Longrightarrow> fgt a NegInf"
  by (cases a; cases b) auto

lemma fgt_trans: "fgt a b \<Longrightarrow> fgt b c \<Longrightarrow> fgt a c"
  by (cases a; cases b; cases c) auto

lemma fge_refl: "fge a a"
  by (simp add: fge_def)

lemma fge_trans: "fge a b \<Longrightarrow> fge b c \<Longrightarrow> fge a c"
  by (auto simp: fge_def dest: fgt_trans)

lemma fits_of_append: "fits_of r (xs @ ys) = fits_of r xs @ fits_of r ys"
  by (induction r xs rule: fits_of.induct) auto

lemma log_event_sel [simp]:
  "heap (log_event ev s) = heap s" "mejor_score (log_event ev s) = mejor_score s"
  "mejor_modelo (log_event ev s) = mejor_modelo s" "trace (log_event ev s) = trace s @ [ev]"
  by (simp_all add: log_event_def)

lemma ckpt_inv_log_event [simp]: "ckpt_inv live (log_event ev s) = ckpt_inv live s"
  by (simp add: ckpt_inv_def split: option.splits)

lemma fit_ref_fst:
  "fst (fit_ref L r idx Xb yb s) =
     s\<lparr> trace := trace s @ [FitCall r idx],
        heap := (heap s)[r := (heap s ! r)\<lparr> learned :=
                   fst (fit_effect L (params (heap s ! r)) (learned (heap s ! r)) Xb yb) \<rparr>] \<rparr>"
  by (simp add: fit_ref_def log_event_def Let_def)

subsection \<open>What a batch, an epoch and the reports leave unchanged\<close>

lemma batch_step_summary:
  fixes L :: "('l, 'a, 'b) lib" and s :: "'l estado" and live B st en :: nat
    and X_eval Xb :: "'a list" and y_eval yb :: "'b list" and idx :: "nat list"
  assumes "ckpt_inv live s"
  defines "s' \<equiv> batch_step L live X_eval y_eval B st en idx Xb yb s"
  shows "ckpt_inv live s'"
    and "length (heap s) \<le> length (heap s')"
    and "\<forall>a < length (heap s). a \<noteq> live \<longrightarrow> heap s' ! a = heap s ! a"
    and "\<exists>T. trace s' = trace s @ T \<and> list_all inner_event T \<and> fits_of live T = [idx]"
    and "fge (mejor_score s') (mejor_score s)"
  using assms(1) unfolding s'_def batch_step_def batch_body_def
  by (auto simp: ckpt_inv_def fit_ref_def log_event_def Let_def inner_event_def fge_def nth_append clone_def
           split: prod.splits option.splits sum.splits if_splits dest: fgt_NegInf)

lemma run_batches_summary:
  fixes L :: "('l, 'a, 'b) lib" and s s' :: "'l estado"
  assumes "run_batches L live X_eval y_eval X y B indices starts s = Inr s'"
    and "ckpt_inv live s"
  shows "ckpt_inv live s' \<and> length (heap s) \<le> length (heap s') \<and>
         (\<forall>a < length (heap s). a \<noteq> live \<longrightarrow> heap s' ! a = heap s ! a) \<and>
         (\<exists>T. trace s' = trace s @ T \<and> list_all inner_event T \<and>
              fits_of live T =
                map (\<lambda>st. slice indices st (min (st + B) (length X))) starts) \<and>
         fge (mejor_score s') (mejor_score s)"
  using assms
proof (induction starts arbitrary: s)
  case Nil
  then show ?case by (simp add: fge_refl)
next
  case (Cons st rest)
  let ?en = "min (st + B) (length X)"
  let ?idx = "slice indices st ?en"
  from Cons.prems(1) obtain Xb yb where
    xb: "take_rows X ?idx = Inr Xb" and yb: "take_rows y ?idx = Inr yb"
    by (auto simp: Let_def split: sum.splits)
  let ?s1 = "batch_step L live X_eval y_eval B st ?en ?idx Xb yb s"
  from Cons.prems(1) xb yb have rest: "run_batches L live X_eval y_eval X y B indices rest ?s1 = Inr s'"
    by (simp add: Let_def)
  note st1 = batch_step_summary[OF Cons.prems(2), of L X_eval y_eval B st ?en ?idx Xb yb]
  note ih = Cons.IH[OF rest st1(1)]
  from st1(4) obtain T1 where T1: "trace ?s1 = trace s @ T1" "list_all inner_event T1" "fits_of live T1 = [?idx]"
    by blast
  from ih obtain T2 where T2: "trace s' = trace ?s1 @ T2" "list_all inner_event T2"
      "fits_of live T2 = map (\<lambda>st. slice indices st (min (st + B) (length X))) rest"
    by blast
  have tr: "trace s' = trace s @ (T1 @ T2) \<and> list_all inner_event (T1 @ T2) \<and>
        fits_of live (T1 @ T2) = map (\<lambda>st. slice indices st (min (st + B) (length X))) (st # rest)"
    using T1 T2 by (simp add: fits_of_append)
  have len: "length (heap s) \<le> length (heap s')" using st1(2) ih by simp
  have frame: "\<forall>a < length (heap s). a \<noteq> live \<longrightarrow> heap s' ! a = heap s ! a"
    using st1(2,3) ih by auto
  have mono: "fge (mejor_score s') (mejor_score s)"
    using st1(5) ih fge_trans by blast
  show ?case using ih len frame mono tr by blast
qed

lemma epochs_summary:
  fixes L :: "('l, 'a, 'b) lib" and s s' :: "'l estado"
  assumes "epochs L R live X_eval y_eval X y B E epoch k indices s = Inr s'"
    and "ckpt_inv live s"
  shows "ckpt_inv live s' \<and> length (heap s) \<le> length (heap s') \<and>
         (\<forall>a < length (heap s). a \<noteq> live \<longrightarrow> heap s' ! a = heap s ! a) \<and>
         (\<exists>T. trace s' = trace s @ T \<and> list_all (\<lambda>e. \<not> is_BestScore e) T \<and>
              (k = 0 \<longrightarrow> T = []) \<and> (0 < k \<longrightarrow> (\<exists>T'. T = EpochStart (epoch + 1) E # T')) \<and>
              filter is_EpochStart T = map (\<lambda>j. EpochStart (epoch + j + 1) E) [0..<k] \<and>
              fits_of live T = all_batches R (length X) B epoch k indices) \<and>
         fge (mejor_score s') (mejor_score s) \<and> (0 < k \<longrightarrow> 0 < B)"
  using assms
proof (induction k arbitrary: s epoch indices)
  case 0
  then show ?case by (simp add: fge_refl)
next
  case (Suc k)
  let ?s1 = "log_event (EpochStart (epoch + 1) E) s"
  let ?ind = "shuffle R epoch indices"
  from Suc.prems(1) have B: "0 < B" by (auto simp: Let_def split: if_splits)
  from Suc.prems(1) B obtain s2 where
    rb: "run_batches L live X_eval y_eval X y B ?ind (range_step 0 (length X) B) ?s1 = Inr s2"
    and ep: "epochs L R live X_eval y_eval X y B E (epoch + 1) k ?ind s2 = Inr s'"
    by (auto simp: Let_def split: sum.splits)
  have inv1: "ckpt_inv live ?s1" using Suc.prems(2) by simp
  note r = run_batches_summary[OF rb inv1]
  from r have inv2: "ckpt_inv live s2" by blast
  note ih = Suc.IH[OF ep inv2]
  from r obtain T1 where T1: "trace s2 = trace ?s1 @ T1" "list_all inner_event T1"
     "fits_of live T1 = batches_of ?ind (length X) B"
    unfolding batches_of_def by blast
  from ih obtain T2 where T2: "trace s' = trace s2 @ T2" "list_all (\<lambda>e. \<not> is_BestScore e) T2"
     "filter is_EpochStart T2 = map (\<lambda>j. EpochStart (epoch + 1 + j + 1) E) [0..<k]"
     "fits_of live T2 = all_batches R (length X) B (epoch + 1) k ?ind"
    by blast
  have nE: "filter is_EpochStart T1 = []" and nB: "list_all (\<lambda>e. \<not> is_BestScore e) T1"
    using T1(2) by (auto simp: inner_event_def list_all_iff filter_empty_conv)
  let ?T = "EpochStart (epoch + 1) E # T1 @ T2"
  have t1: "trace s' = trace s @ ?T" using T1(1) T2(1) by simp
  have t2: "list_all (\<lambda>e. \<not> is_BestScore e) ?T" using nB T2(2) by simp
  have "map (\<lambda>j. EpochStart (epoch + j + 1) E) [0..<Suc k] =
        EpochStart (epoch + 1) E # map (\<lambda>j. EpochStart (epoch + 1 + j + 1) E) [0..<k]"
    by (simp add: upt_rec[of 0 "Suc k"] map_Suc_upt[symmetric] del: upt_Suc)
  then have t3: "filter is_EpochStart ?T = map (\<lambda>j. EpochStart (epoch + j + 1) E) [0..<Suc k]"
    using nE T2(3) by simp
  have t4: "fits_of live ?T = all_batches R (length X) B epoch (Suc k) indices"
    using T1(3) T2(4) by (simp add: fits_of_append)
  have len: "length (heap s) \<le> length (heap s')" using r ih by simp
  have frame: "\<forall>a < length (heap s). a \<noteq> live \<longrightarrow> heap s' ! a = heap s ! a"
    using r ih by auto
  have mono: "fge (mejor_score s') (mejor_score s)"
  proof -
    have "fge (mejor_score s2) (mejor_score s)" using r by simp
    moreover have "fge (mejor_score s') (mejor_score s2)" using ih by blast
    ultimately show ?thesis using fge_trans by blast
  qed
  have inv': "ckpt_inv live s'" using ih by blast
  show ?case using inv' len frame mono t1 t2 t3 t4 B by blast
qed

lemma generar_informe_fst:
  "fst (generar_informe L r idx X_val y_val s) =
     (if \<not> has_named_steps L (params (heap s ! r)) \<or>
         (map_of (params (heap s ! r)) ''imputer'' \<noteq> None \<and>
          \<not> imputer_fitted L (learned (heap s ! r)))
      then fst (fit_ref L r idx X_val y_val s) else s)"
  by (auto simp: generar_informe_def split: prod.splits option.splits)

lemma generar_informe_summary:
  fixes L :: "('l, 'a, 'b) lib" and s :: "'l estado"
  assumes "generar_informe L r idx X_val y_val s = (s1, e)"
  shows "mejor_modelo s1 = mejor_modelo s \<and> mejor_score s1 = mejor_score s \<and>
         length (heap s1) = length (heap s) \<and>
         (\<exists>F. trace s1 = trace s @ F \<and> list_all (\<lambda>e. \<not> is_EpochStart e) F)"
proof -
  have "s1 = fst (generar_informe L r idx X_val y_val s)" using assms by simp
  then have "s1 = s \<or> s1 = fst (fit_ref L r idx X_val y_val s)"
    unfolding generar_informe_fst by presburger
  then show ?thesis by (auto simp: fit_ref_fst)
qed

lemma finalizar_summary:
  fixes L :: "('l, 'a, 'b) lib" and s :: "'l estado" and live :: nat and idx_eval :: "nat list"
    and X_eval :: "'a list" and y_eval :: "'b list"
  defines "s' \<equiv> finalizar L live idx_eval X_eval y_eval s"
  shows "mejor_modelo s' = mejor_modelo s \<and> mejor_score s' = mejor_score s \<and>
         length (heap s') = length (heap s) \<and>
         (\<exists>F. trace s' = trace s @ F \<and> list_all (\<lambda>e. \<not> is_EpochStart e) F)"
proof -
  let ?mf = "case mejor_modelo s of Some c \<Rightarrow> c | None \<Rightarrow> live"
  show ?thesis
  proof (cases "evaluar_modelo L (heap s ! ?mf) X_eval y_eval None None 5")
    case (Inl e)
    then have "s' = log_event (ReportError e) s"
      by (simp add: s'_def finalizar_def)
    then show ?thesis by simp
  next
    case (Inr res)
    show ?thesis
    proof (cases "dump_json L res")
      case (Some e)
      then have "s' = log_event (ReportError e) s"
        using Inr by (simp add: s'_def finalizar_def)
      then show ?thesis by simp
    next
      case None
      obtain s1 e where g: "generar_informe L ?mf idx_eval X_eval y_eval s = (s1, e)"
        by (cases "generar_informe L ?mf idx_eval X_eval y_eval s") blast
      note gs = generar_informe_summary[OF g]
      from gs obtain F where F: "trace s1 = trace s @ F" "list_all (\<lambda>e. \<not> is_EpochStart e) F"
        by blast
      show ?thesis
      proof (cases e)
        case None
        then have "s' = s1" using Inr \<open>dump_json L res = None\<close> g
          by (simp add: s'_def finalizar_def)
        then show ?thesis using gs by simp
      next
        case (Some ex)
        then have "s' = log_event (ReportError ex) s1" using Inr \<open>dump_json L res = None\<close> g
          by (simp add: s'_def finalizar_def)
        then show ?thesis using gs F by simp
      qed
    qed
  qed
qed

lemma warm_start_summary:
  assumes "warm_start L R modelo X y batch_size = Inr s0"
  shows "ckpt_inv 0 s0 \<and> mejor_score s0 = NegInf \<and> mejor_modelo s0 = None \<and>
         length (heap s0) = 1 \<and> (\<exists>ini. trace s0 = [FitCall 0 ini])"
  using assms unfolding warm_start_def
  by (auto simp: fit_ref_def log_event_def Let_def ckpt_inv_def
           split: prod.splits option.splits sum.splits if_splits)

lemma entrenar_por_lotes_Inr:
  assumes "entrenar_por_lotes L R modelo X y batch_size n_epochs = Inr (r, s)"
  shows "\<exists>s0 idx_eval X_eval y_eval s1.
           warm_start L R modelo X y batch_size = Inr s0 \<and>
           indices_eval R (length X) = Inr idx_eval \<and>
           take_rows X idx_eval = Inr X_eval \<and> take_rows y idx_eval = Inr y_eval \<and>
           epochs L R 0 X_eval y_eval X y (nat batch_size) n_epochs 0 (nat n_epochs)
              [0..<length X] s0 = Inr s1 \<and>
           s = finalizar L 0 idx_eval X_eval y_eval (log_event (BestScore (mejor_score s1)) s1) \<and>
           r = (case mejor_modelo s of Some c \<Rightarrow> c | None \<Rightarrow> 0)"
  using assms unfolding entrenar_por_lotes_def
  by (auto simp: Let_def split: sum.splits)

lemma loop_events_shape:
  assumes "\<not> is_EpochStart a" and "list_all (\<lambda>e. \<not> is_BestScore e) T"
    and "T = [] \<or> (\<exists>T'. T = EpochStart j E # T')"
    and "list_all (\<lambda>e. \<not> is_EpochStart e) F"
  shows "loop_events (a # T @ BestScore b # F) = T"
proof (cases T)
  case Nil
  have d: "dropWhile (\<lambda>e. \<not> is_EpochStart e) F = []"
    using assms(4) by (simp add: dropWhile_eq_Nil_conv list_all_iff)
  show ?thesis using Nil assms(1) by (simp add: loop_events_def d)
next
  case (Cons t T')
  then have t: "t = EpochStart j E" using assms(3) by auto
  have "takeWhile (\<lambda>e. \<not> is_BestScore e) (T @ BestScore b # F) = T"
    using assms(2) by (simp add: takeWhile_append2 list_all_iff)
  then show ?thesis using Cons t assms(1) by (simp add: loop_events_def)
qed

lemma entrenar_por_lotes_trace:
  assumes "entrenar_por_lotes L R modelo X y batch_size n_epochs = Inr (r, s)"
  shows "fits_of 0 (loop_events (trace s)) =
           all_batches R (length X) (nat batch_size) 0 (nat n_epochs) [0..<length X] \<and>
         filter is_EpochStart (loop_events (trace s)) =
           map (\<lambda>j. EpochStart (j + 1) n_epochs) [0..<nat n_epochs]"
proof -
  from entrenar_por_lotes_Inr[OF assms] obtain s0 idx_eval X_eval y_eval s1 where
    ws: "warm_start L R modelo X y batch_size = Inr s0" and
    ep: "epochs L R 0 X_eval y_eval X y (nat batch_size) n_epochs 0 (nat n_epochs)
              [0..<length X] s0 = Inr s1" and
    s: "s = finalizar L 0 idx_eval X_eval y_eval (log_event (BestScore (mejor_score s1)) s1)"
    by blast
  from warm_start_summary[OF ws] obtain ini where inv0: "ckpt_inv 0 s0" and t0: "trace s0 = [FitCall 0 ini]"
    by blast
  from epochs_summary[OF ep inv0] obtain T where
    T: "trace s1 = trace s0 @ T" "list_all (\<lambda>e. \<not> is_BestScore e) T"
       "nat n_epochs = 0 \<longrightarrow> T = []" "0 < nat n_epochs \<longrightarrow> (\<exists>T'. T = EpochStart (0 + 1) n_epochs # T')"
       "filter is_EpochStart T = map (\<lambda>j. EpochStart (0 + j + 1) n_epochs) [0..<nat n_epochs]"
       "fits_of 0 T = all_batches R (length X) (nat batch_size) 0 (nat n_epochs) [0..<length X]"
    by (elim conjE exE) auto
  from finalizar_summary[of L 0 idx_eval X_eval y_eval "log_event (BestScore (mejor_score s1)) s1"] s
  obtain F where F: "trace s = trace (log_event (BestScore (mejor_score s1)) s1) @ F"
      "list_all (\<lambda>e. \<not> is_EpochStart e) F"
    by blast
  have tr: "trace s = FitCall 0 ini # T @ BestScore (mejor_score s1) # F"
    using F(1) T(1) t0 by simp
  have sh: "T = [] \<or> (\<exists>T'. T = EpochStart (0 + 1) n_epochs # T')"
    using T(3,4) by (cases "nat n_epochs") auto
  have "loop_events (trace s) = T"
    unfolding tr by (rule loop_events_shape[OF _ T(2) sh F(2)]) simp
  then show ?thesis using T(5,6) by simp
qed

lemma entrenar_por_lotes_result:
  assumes "entrenar_por_lotes L R modelo X y batch_size n_epochs = Inr (r, s)"
  shows "ckpt_inv 0 s \<and> r < length (heap s) \<and>
         r = (case mejor_modelo s of Some c \<Rightarrow> c | None \<Rightarrow> 0)"
proof -
  from entrenar_por_lotes_Inr[OF assms] obtain s0 idx_eval X_eval y_eval s1 where
    ws: "warm_start L R modelo X y batch_size = Inr s0" and
    ep: "epochs L R 0 X_eval y_eval X y (nat batch_size) n_epochs 0 (nat n_epochs)
              [0..<length X] s0 = Inr s1" and
    s: "s = finalizar L 0 idx_eval X_eval y_eval (log_event (BestScore (mejor_score s1)) s1)" and
    r: "r = (case mejor_modelo s of Some c \<Rightarrow> c | None \<Rightarrow> 0)"
    by blast
  from warm_start_summary[OF ws] have inv0: "ckpt_inv 0 s0" by blast
  from epochs_summary[OF ep inv0] have inv1: "ckpt_inv 0 s1" by blast
  from finalizar_summary[of L 0 idx_eval X_eval y_eval "log_event (BestScore (mejor_score s1)) s1"] s
  have f: "mejor_modelo s = mejor_modelo s1" "mejor_score s = mejor_score s1"
          "length (heap s) = length (heap s1)"
    by simp_all
  have inv: "ckpt_inv 0 s" using inv1 f by (simp add: ckpt_inv_def split: option.splits)
  then show ?thesis using r by (auto simp: ckpt_inv_def split: option.splits)
qed

subsection \<open>The loops return\<close>

lemma take_rows_ok:
  "\<forall>i\<in>set idx. i < length X \<Longrightarrow> take_rows X idx = Inr (map (\<lambda>i. X ! i) idx)"
  by (simp add: take_rows_def list_all_iff)

lemma set_slice: "set (slice xs a b) \<subseteq> set xs"
  unfolding slice_def using set_take_subset set_drop_subset by fast

lemma run_batches_total:
  assumes "\<forall>i\<in>set indices. i < length X" and "length y = length X"
  shows "\<exists>s'. run_batches L live X_eval y_eval X y B indices starts s = Inr s'"
proof (induction starts arbitrary: s)
  case Nil
  then show ?case by simp
next
  case (Cons st rest)
  let ?idx = "slice indices st (min (st + B) (length X))"
  have b: "\<forall>i\<in>set ?idx. i < length X" using assms(1) set_slice by fast
  have x: "take_rows X ?idx = Inr (map (\<lambda>i. X ! i) ?idx)" using b by (rule take_rows_ok)
  have y: "take_rows y ?idx = Inr (map (\<lambda>i. y ! i) ?idx)"
    using b assms(2) by (intro take_rows_ok) simp
  show ?case using Cons[of "batch_step L live X_eval y_eval B st (min (st + B) (length X)) ?idx
        (map (\<lambda>i. X ! i) ?idx) (map (\<lambda>i. y ! i) ?idx) s"] x y
    by (simp add: Let_def)
qed

lemma epochs_total:
  assumes "\<forall>e xs. set (shuffle R e xs) = set xs"
    and "\<forall>i\<in>set indices. i < length X" and "length y = length X" and "0 < B"
  shows "\<exists>s'. epochs L R live X_eval y_eval X y B E epoch k indices s = Inr s'"
  using assms(2)
proof (induction k arbitrary: s epoch indices)
  case 0
  then show ?case by simp
next
  case (Suc k)
  let ?ind = "shuffle R epoch indices"
  have b: "\<forall>i\<in>set ?ind. i < length X" using Suc.prems assms(1) by simp
  from run_batches_total[OF b assms(3)] obtain s2 where
    "run_batches L live X_eval y_eval X y B ?ind (range_step 0 (length X) B)
       (log_event (EpochStart (epoch + 1) E) s) = Inr s2"
    by blast
  then show ?case using Suc.IH[OF b, of "epoch + 1" s2] assms(4) by (simp add: Let_def)
qed

subsection \<open>The batches of an epoch\<close>

lemma slices_concat:
  assumes "0 < B" and "length indices = n"
  shows "concat (map (\<lambda>st. slice indices st (min (st + B) n)) (range_step a n B)) = drop a indices"
  using assms
proof (induction a n B rule: range_step.induct)
  case (1 start n B)
  show ?case
  proof (cases "start < n")
    case True
    have sl: "slice indices start (min (start + B) n) = take B (drop start indices)"
      using 1(3) True by (simp add: slice_def min_def)
    have "drop start indices = take B (drop start indices) @ drop (start + B) indices"
      using append_take_drop_id[of B "drop start indices"] by (simp add: add.commute)
    then show ?thesis using 1 True sl
      by (subst range_step.simps) simp
  next
    case False
    then show ?thesis using 1(3) by (subst range_step.simps) simp
  qed
qed

lemma batches_of_concat:
  "0 < B \<Longrightarrow> length indices = n \<Longrightarrow> concat (batches_of indices n B) = indices"
  using slices_concat[of B indices n 0] by (simp add: batches_of_def)

lemma all_batches_count:
  assumes "\<forall>e xs. mset (shuffle R e xs) = mset xs" and "0 < B" and "length indices = n"
  shows "mset (concat (all_batches R n B epoch k indices)) = repeat_mset k (mset indices)"
  using assms(3)
proof (induction k arbitrary: epoch indices)
  case 0
  then show ?case by simp
next
  case (Suc k)
  let ?ind = "shuffle R epoch indices"
  have m: "mset ?ind = mset indices" using assms(1) by simp
  then have l: "length ?ind = n" using Suc.prems by (metis size_mset)
  show ?case using Suc.IH[OF l, of "epoch + 1"] batches_of_concat[OF assms(2) l] m
    by simp
qed

lemma length_range_step:
  "0 < B \<Longrightarrow> length (range_step a n B) = (n - a + B - 1) div B"
proof (induction a n B rule: range_step.induct)
  case (1 start n B)
  show ?case
  proof (cases "start < n")
    case True
    have ih: "length (range_step (start + B) n B) = (n - (start + B) + B - 1) div B"
      using 1 True by simp
    obtain m where m: "n - start = Suc m" using True by (metis Suc_diff_Suc)
    have l: "(n - start + B - 1) div B = Suc (m div B)" using m 1(2) by simp
    have "(n - start + B - 1) div B = Suc ((n - (start + B) + B - 1) div B)"
    proof (cases "start + B \<le> n")
      case True
      then have "n - (start + B) + B - 1 = m" using m by simp
      then show ?thesis using l by simp
    next
      case False
      then have a: "n - (start + B) + B - 1 = B - 1" by simp
      have "m < B" using False m by simp
      then show ?thesis using l a 1(2) by simp
    qed
    then show ?thesis using ih True 1(2) by (subst range_step.simps) simp
  next
    case False
    then show ?thesis using 1(2) by (subst range_step.simps) simp
  qed
qed

lemma length_all_batches:
  "length (all_batches R n B epoch k indices) = k * length (range_step 0 n B)"
  by (induction k arbitrary: epoch indices) (simp_all add: batches_of_def)

subsection \<open>The run as a whole\<close>

lemma entrenar_por_lotes_total:
  assumes ws: "warm_start L R modelo X y batch_size = Inr s0"
    and rng: "rng_ok R (length X)" and len: "length y = length X" and B: "0 < batch_size"
  shows "\<exists>r s. entrenar_por_lotes L R modelo X y batch_size n_epochs = Inr (r, s)"
proof -
  let ?n = "length X"
  let ?ev = "draw R 1 ?n (min 1000 ?n)"
  have ie: "indices_eval R ?n = Inr ?ev"
    by (simp add: indices_eval_def np_choice_def)
  have evb: "\<forall>i\<in>set ?ev. i < ?n"
    using rng unfolding rng_ok_def by (meson lessThan_iff min.cobounded2 subsetD)
  have x: "take_rows X ?ev = Inr (map (\<lambda>i. X ! i) ?ev)" using evb by (rule take_rows_ok)
  have y: "take_rows y ?ev = Inr (map (\<lambda>i. y ! i) ?ev)"
    using evb len by (intro take_rows_ok) simp
  have sh: "\<forall>e xs. set (shuffle R e xs) = set xs"
    using rng unfolding rng_ok_def by (meson mset_eq_setD)
  have ib: "\<forall>i\<in>set [0..<?n]. i < ?n" by simp
  from epochs_total[OF sh ib len, of "nat batch_size"] B obtain s1 where
    "epochs L R 0 (map (\<lambda>i. X ! i) ?ev) (map (\<lambda>i. y ! i) ?ev) X y (nat batch_size) n_epochs 0
       (nat n_epochs) [0..<?n] s0 = Inr s1"
    by (metis zero_less_nat_eq)
  then show ?thesis using ws ie x y by (simp add: entrenar_por_lotes_def Let_def)
qed

subsection \<open>The checkpoint in a run\<close>

lemma ckpt_fits_append: "ckpt_fits r (xs @ ys) = ckpt_fits r xs @ ckpt_fits r ys"
  by (induction r xs rule: ckpt_fits.induct) auto

lemma batch_step_raises:
  fixes L :: "('l, 'a, 'b) lib" and s :: "'l estado"
  assumes live: "live < length (heap s)"
    and fit: "fit_effect L (params (heap s ! live)) (learned (heap s ! live)) Xb yb = (l1, exf)"
    and fail: "exf = Some e \<or>
               (exf = None \<and> r2_predict L (params (heap s ! live)) l1 X_eval y_eval = Inl e)"
  shows "batch_step L live X_eval y_eval B st en idx Xb yb s =
           s\<lparr> heap := (heap s)[live := (heap s ! live)\<lparr> learned := l1 \<rparr>],
              trace := trace s @ [FitCall live idx, BatchError st en e] \<rparr>"
  using live fit fail unfolding batch_step_def batch_body_def
  by (auto simp: fit_ref_def log_event_def Let_def)

lemma batch_step_no_improvement:
  fixes L :: "('l, 'a, 'b) lib" and s :: "'l estado"
  assumes live: "live < length (heap s)"
    and fit: "fit_effect L (params (heap s ! live)) (learned (heap s ! live)) Xb yb = (l1, None)"
    and score: "r2_predict L (params (heap s ! live)) l1 X_eval y_eval = Inr sc"
    and worse: "\<not> fgt sc (mejor_score s)"
  shows "batch_step L live X_eval y_eval B st en idx Xb yb s =
           s\<lparr> heap := (heap s)[live := (heap s ! live)\<lparr> learned := l1 \<rparr>],
              trace := trace s @ FitCall live idx #
                 (if (st + B) mod (B * 10) = 0 then [Progress en sc] else []) \<rparr>"
  using live fit score worse unfolding batch_step_def batch_body_def
  by (simp add: fit_ref_def log_event_def Let_def)

lemma batch_step_checkpoint_raises:
  fixes L :: "('l, 'a, 'b) lib" and s :: "'l estado"
  assumes live: "live < length (heap s)"
    and fit: "fit_effect L (params (heap s ! live)) (learned (heap s ! live)) Xb yb = (l1, None)"
    and score: "r2_predict L (params (heap s ! live)) l1 X_eval y_eval = Inr sc"
    and better: "fgt sc (mejor_score s)"
    and cfit: "fit_effect L (params (heap s ! live)) None Xb yb = (lc, Some e)"
  shows "batch_step L live X_eval y_eval B st en idx Xb yb s =
           s\<lparr> heap := (heap s)[live := (heap s ! live)\<lparr> learned := l1 \<rparr>] @
                        [\<lparr> params = params (heap s ! live), learned = lc \<rparr>],
              mejor_score := sc, mejor_modelo := Some (length (heap s)),
              trace := trace s @ [FitCall live idx, FitCall (length (heap s)) idx,
                                  BatchError st en e] \<rparr>"
  using live fit score better cfit unfolding batch_step_def batch_body_def
  by (simp add: fit_ref_def log_event_def Let_def clone_def nth_append list_update_append)

lemma batch_step_checkpoint:
  fixes L :: "('l, 'a, 'b) lib" and s :: "'l estado"
  assumes live: "live < length (heap s)"
    and fit: "fit_effect L (params (heap s ! live)) (learned (heap s ! live)) Xb yb = (l1, None)"
    and score: "r2_predict L (params (heap s ! live)) l1 X_eval y_eval = Inr sc"
    and better: "fgt sc (mejor_score s)"
    and cfit: "fit_effect L (params (heap s ! live)) None Xb yb = (lc, None)"
  shows "batch_step L live X_eval y_eval B st en idx Xb yb s =
           s\<lparr> heap := (heap s)[live := (heap s ! live)\<lparr> learned := l1 \<rparr>] @
                        [\<lparr> params = params (heap s ! live), learned = lc \<rparr>],
              mejor_score := sc, mejor_modelo := Some (length (heap s)),
              trace := trace s @ FitCall live idx # FitCall (length (heap s)) idx #
                 (if (st + B) mod (B * 10) = 0 then [Progress en sc] else []) \<rparr>"
  using live fit score better cfit unfolding batch_step_def batch_body_def
  by (simp add: fit_ref_def log_event_def Let_def clone_def nth_append list_update_append)

lemma batch_step_ckpt:
  fixes L :: "('l, 'a, 'b) lib" and s :: "'l estado"
  assumes live: "live < length (heap s)"
  shows "\<exists>T. trace (batch_step L live X_eval y_eval B st en idx Xb yb s) = trace s @ T \<and>
           mejor_modelo (batch_step L live X_eval y_eval B st en idx Xb yb s) =
             (if ckpt_fits live T = [] then mejor_modelo s else Some (last (ckpt_fits live T)))"
proof -
  obtain l1 exf where fit:
    "fit_effect L (params (heap s ! live)) (learned (heap s ! live)) Xb yb = (l1, exf)"
    by (cases "fit_effect L (params (heap s ! live)) (learned (heap s ! live)) Xb yb") blast
  have ne: "length (heap s) \<noteq> live" using live by simp
  show ?thesis
  proof (cases exf)
    case (Some e)
    show ?thesis
      unfolding batch_step_raises[OF live fit, of e, OF disjI1[OF Some]] by simp
  next
    case None
    show ?thesis
    proof (cases "r2_predict L (params (heap s ! live)) l1 X_eval y_eval")
      case (Inl e)
      have f: "exf = Some e \<or>
               (exf = None \<and> r2_predict L (params (heap s ! live)) l1 X_eval y_eval = Inl e)"
        using None Inl by simp
      show ?thesis unfolding batch_step_raises[OF live fit f] by simp
    next
      case (Inr sc)
      note fit' = fit[unfolded None]
      show ?thesis
      proof (cases "fgt sc (mejor_score s)")
        case False
        show ?thesis unfolding batch_step_no_improvement[OF live fit' Inr False] by simp
      next
        case True
        obtain lc exc where cfit:
          "fit_effect L (params (heap s ! live)) None Xb yb = (lc, exc)"
          by (cases "fit_effect L (params (heap s ! live)) None Xb yb") blast
        show ?thesis
        proof (cases exc)
          case None
          show ?thesis
            unfolding batch_step_checkpoint[OF live fit' Inr True cfit[unfolded None]]
            using ne by simp
        next
          case (Some e)
          show ?thesis
            unfolding batch_step_checkpoint_raises[OF live fit' Inr True cfit[unfolded Some]]
            using ne by simp
        qed
      qed
    qed
  qed
qed

lemma batch_step_mejor_modelo:
  fixes L :: "('l, 'a, 'b) lib" and s :: "'l estado"
  assumes "live < length (heap s)"
  shows "mejor_modelo (batch_step L live X_eval y_eval B st en idx Xb yb s) =
           (case fit_effect L (params (heap s ! live)) (learned (heap s ! live)) Xb yb of
              (l1, None) \<Rightarrow>
                (case r2_predict L (params (heap s ! live)) l1 X_eval y_eval of
                   Inr score \<Rightarrow> if fgt score (mejor_score s) then Some (length (heap s))
                                else mejor_modelo s
                 | Inl e \<Rightarrow> mejor_modelo s)
            | (l1, Some e) \<Rightarrow> mejor_modelo s)"
  using assms unfolding batch_step_def batch_body_def
  by (auto simp: fit_ref_def log_event_def Let_def
           split: prod.splits option.splits sum.splits if_splits)

lemma ckpt_compose:
  assumes "m1 = (if ckpt_fits live T1 = [] then m0 else Some (last (ckpt_fits live T1)))"
    and "m2 = (if ckpt_fits live T2 = [] then m1 else Some (last (ckpt_fits live T2)))"
  shows "m2 = (if ckpt_fits live (T1 @ T2) = [] then m0
               else Some (last (ckpt_fits live (T1 @ T2))))"
  using assms by (simp add: ckpt_fits_append)

lemma run_batches_ckpt:
  fixes L :: "('l, 'a, 'b) lib" and s s' :: "'l estado"
  assumes "run_batches L live X_eval y_eval X y B indices starts s = Inr s'"
    and "ckpt_inv live s"
  shows "\<exists>T. trace s' = trace s @ T \<and>
           mejor_modelo s' =
             (if ckpt_fits live T = [] then mejor_modelo s else Some (last (ckpt_fits live T)))"
  using assms
proof (induction starts arbitrary: s)
  case Nil
  then show ?case by simp
next
  case (Cons st rest)
  let ?en = "min (st + B) (length X)"
  let ?idx = "slice indices st ?en"
  from Cons.prems(1) obtain Xb yb where
    xb: "take_rows X ?idx = Inr Xb" and yb: "take_rows y ?idx = Inr yb"
    by (auto simp: Let_def split: sum.splits)
  let ?s1 = "batch_step L live X_eval y_eval B st ?en ?idx Xb yb s"
  from Cons.prems(1) xb yb have rest: "run_batches L live X_eval y_eval X y B indices rest ?s1 = Inr s'"
    by (simp add: Let_def)
  have live: "live < length (heap s)" using Cons.prems(2) by (simp add: ckpt_inv_def)
  have inv1: "ckpt_inv live ?s1" by (rule batch_step_summary(1)[OF Cons.prems(2)])
  from batch_step_ckpt[OF live, where L = L and X_eval = X_eval and y_eval = y_eval and B = B
      and st = st and en = ?en and idx = ?idx and Xb = Xb and yb = yb] obtain T1 where
    T1: "trace ?s1 = trace s @ T1"
        "mejor_modelo ?s1 =
           (if ckpt_fits live T1 = [] then mejor_modelo s else Some (last (ckpt_fits live T1)))"
    by blast
  from Cons.IH[OF rest inv1] obtain T2 where
    T2: "trace s' = trace ?s1 @ T2"
        "mejor_modelo s' =
           (if ckpt_fits live T2 = [] then mejor_modelo ?s1 else Some (last (ckpt_fits live T2)))"
    by blast
  have "trace s' = trace s @ (T1 @ T2)" using T1(1) T2(1) by simp
  then show ?case using ckpt_compose[OF T1(2) T2(2)] by blast
qed

lemma epochs_ckpt:
  fixes L :: "('l, 'a, 'b) lib" and s s' :: "'l estado"
  assumes "epochs L R live X_eval y_eval X y B E epoch k indices s = Inr s'"
    and "ckpt_inv live s"
  shows "\<exists>T. trace s' = trace s @ T \<and>
           mejor_modelo s' =
             (if ckpt_fits live T = [] then mejor_modelo s else Some (last (ckpt_fits live T)))"
  using assms
proof (induction k arbitrary: s epoch indices)
  case 0
  then show ?case by simp
next
  case (Suc k)
  let ?s1 = "log_event (EpochStart (epoch + 1) E) s"
  let ?ind = "shuffle R epoch indices"
  from Suc.prems(1) have B: "0 < B" by (auto simp: Let_def split: if_splits)
  from Suc.prems(1) B obtain s2 where
    rb: "run_batches L live X_eval y_eval X y B ?ind (range_step 0 (length X) B) ?s1 = Inr s2"
    and ep: "epochs L R live X_eval y_eval X y B E (epoch + 1) k ?ind s2 = Inr s'"
    by (auto simp: Let_def split: sum.splits)
  have inv1: "ckpt_inv live ?s1" using Suc.prems(2) by simp
  from run_batches_summary[OF rb inv1] have inv2: "ckpt_inv live s2" by blast
  from run_batches_ckpt[OF rb inv1] obtain T1 where
    T1: "trace s2 = trace ?s1 @ T1"
        "mejor_modelo s2 =
           (if ckpt_fits live T1 = [] then mejor_modelo ?s1 else Some (last (ckpt_fits live T1)))"
    by blast
  from Suc.IH[OF ep inv2] obtain T2 where
    T2: "trace s' = trace s2 @ T2"
        "mejor_modelo s' =
           (if ckpt_fits live T2 = [] then mejor_modelo s2 else Some (last (ckpt_fits live T2)))"
    by blast
  have m0: "mejor_modelo ?s1 =
         (if ckpt_fits live [EpochStart (epoch + 1) E] = [] then mejor_modelo s
          else Some (last (ckpt_fits live [EpochStart (epoch + 1) E])))"
    by simp
  have t: "trace s' = trace s @ ([EpochStart (epoch + 1) E] @ T1 @ T2)"
    using T1(1) T2(1) by simp
  from T1(2) have m1: "mejor_modelo s2 =
         (if ckpt_fits live ([EpochStart (epoch + 1) E] @ T1) = [] then mejor_modelo s
          else Some (last (ckpt_fits live ([EpochStart (epoch + 1) E] @ T1))))"
    by simp
  show ?case using t ckpt_compose[OF m1 T2(2)] by (metis append.assoc)
qed

lemma finalizar_heap:
  fixes L :: "('l, 'a, 'b) lib" and s :: "'l estado" and live :: nat
  defines "mf \<equiv> (case mejor_modelo s of Some c \<Rightarrow> c | None \<Rightarrow> live)"
  shows "heap (finalizar L live idx_eval X_eval y_eval s) =
           (if report_refits L (heap s ! mf) X_eval y_eval
            then (heap s)[mf := (heap s ! mf)\<lparr> learned :=
                    fst (fit_effect L (params (heap s ! mf)) (learned (heap s ! mf))
                           X_eval y_eval) \<rparr>]
            else heap s)"
proof (cases "evaluar_modelo L (heap s ! mf) X_eval y_eval None None 5")
  case (Inl e)
  then show ?thesis by (simp add: finalizar_def report_refits_def mf_def)
next
  case (Inr res)
  show ?thesis
  proof (cases "dump_json L res")
    case (Some e)
    then show ?thesis using Inr by (simp add: finalizar_def report_refits_def mf_def)
  next
    case None
    have "heap (finalizar L live idx_eval X_eval y_eval s) =
            heap (fst (generar_informe L mf idx_eval X_eval y_eval s))"
      using Inr None by (simp add: finalizar_def mf_def split: prod.splits option.splits)
    then show ?thesis
      using Inr None unfolding generar_informe_fst
      by (auto simp: report_refits_def fit_ref_fst)
  qed
qed

lemma take_rows_Inr: "take_rows X idx = Inr Xs \<Longrightarrow> Xs = map (\<lambda>i. X ! i) idx"
  by (simp add: take_rows_def split: if_splits)

lemma entrenar_por_lotes_phases:
  assumes "entrenar_por_lotes L R modelo X y batch_size n_epochs = Inr (r, s)"
  shows "\<exists>s0 ev s1.
           warm_start L R modelo X y batch_size = Inr s0 \<and>
           indices_eval R (length X) = Inr ev \<and>
           epochs L R 0 (map (\<lambda>i. X ! i) ev) (map (\<lambda>i. y ! i) ev) X y (nat batch_size)
             n_epochs 0 (nat n_epochs) [0..<length X] s0 = Inr s1 \<and>
           s = finalizar L 0 ev (map (\<lambda>i. X ! i) ev) (map (\<lambda>i. y ! i) ev)
                 (log_event (BestScore (mejor_score s1)) s1) \<and>
           r = (case mejor_modelo s of Some c \<Rightarrow> c | None \<Rightarrow> 0) \<and>
           trace s1 = trace s0 @ loop_events (trace s)"
proof -
  from entrenar_por_lotes_Inr[OF assms] obtain s0 ev X_eval y_eval s1 where
    ws: "warm_start L R modelo X y batch_size = Inr s0" and
    ie: "indices_eval R (length X) = Inr ev" and
    tx: "take_rows X ev = Inr X_eval" and ty: "take_rows y ev = Inr y_eval" and
    ep: "epochs L R 0 X_eval y_eval X y (nat batch_size) n_epochs 0 (nat n_epochs)
              [0..<length X] s0 = Inr s1" and
    s: "s = finalizar L 0 ev X_eval y_eval (log_event (BestScore (mejor_score s1)) s1)" and
    r: "r = (case mejor_modelo s of Some c \<Rightarrow> c | None \<Rightarrow> 0)"
    by blast
  note xe = take_rows_Inr[OF tx] and ye = take_rows_Inr[OF ty]
  from warm_start_summary[OF ws] obtain ini where inv0: "ckpt_inv 0 s0"
    and t0: "trace s0 = [FitCall 0 ini]"
    by blast
  from epochs_summary[OF ep inv0] obtain T where
    T: "trace s1 = trace s0 @ T" "list_all (\<lambda>e. \<not> is_BestScore e) T"
       "nat n_epochs = 0 \<longrightarrow> T = []"
       "0 < nat n_epochs \<longrightarrow> (\<exists>T'. T = EpochStart (0 + 1) n_epochs # T')"
    by (elim conjE exE) auto
  from finalizar_summary[of L 0 ev X_eval y_eval "log_event (BestScore (mejor_score s1)) s1"] s
  obtain F where F: "trace s = trace (log_event (BestScore (mejor_score s1)) s1) @ F"
      "list_all (\<lambda>e. \<not> is_EpochStart e) F"
    by blast
  have tr: "trace s = FitCall 0 ini # T @ BestScore (mejor_score s1) # F"
    using F(1) T(1) t0 by simp
  have sh: "T = [] \<or> (\<exists>T'. T = EpochStart (0 + 1) n_epochs # T')"
    using T(3,4) by (cases "nat n_epochs") auto
  have le: "loop_events (trace s) = T"
    unfolding tr by (rule loop_events_shape[OF _ T(2) sh F(2)]) simp
  show ?thesis
    using ws ie ep s r T(1) le unfolding xe ye by blast
qed



lemma warm_start_fit:
  assumes rng: "rng_ok R (length X)" and len: "length y = length X" and B: "0 < batch_size"
  shows "warm_start L R modelo X y batch_size =
           (case fit_effect L
              (params (case modelo of None \<Rightarrow> crear_pipeline_incremental | Some m \<Rightarrow> m))
              (learned (case modelo of None \<Rightarrow> crear_pipeline_incremental | Some m \<Rightarrow> m))
              (map (\<lambda>i. X ! i)
                 (draw R 0 (length X) (nat (min (batch_size * 10) (int (length X))))))
              (map (\<lambda>i. y ! i)
                 (draw R 0 (length X) (nat (min (batch_size * 10) (int (length X)))))) of
              (l, Some e) \<Rightarrow> Inl e
            | (l, None) \<Rightarrow>
                Inr \<lparr> heap = [(case modelo of None \<Rightarrow> crear_pipeline_incremental | Some m \<Rightarrow> m)
                                \<lparr> learned := l \<rparr>],
                      mejor_score = NegInf, mejor_modelo = None,
                      trace = [FitCall 0 (draw R 0 (length X)
                                 (nat (min (batch_size * 10) (int (length X)))))] \<rparr>)"
proof -
  let ?n = "length X"
  let ?k = "nat (min (batch_size * 10) (int ?n))"
  let ?ini = "draw R 0 ?n ?k"
  have c: "np_choice (draw R 0) ?n (min (batch_size * 10) (int ?n)) = Inr ?ini"
    using B by (simp add: np_choice_def)
  have "?k \<le> ?n" by simp
  then have inb: "\<forall>i\<in>set ?ini. i < ?n"
    using rng unfolding rng_ok_def by (meson lessThan_iff subsetD)
  have x: "take_rows X ?ini = Inr (map (\<lambda>i. X ! i) ?ini)" using inb by (rule take_rows_ok)
  have y: "take_rows y ?ini = Inr (map (\<lambda>i. y ! i) ?ini)"
    using inb len by (intro take_rows_ok) simp
  show ?thesis
    unfolding warm_start_def using c x y
    by (cases modelo)
       (simp_all add: Let_def fit_ref_def log_event_def split: prod.splits option.splits)
qed

subsection \<open>Column selection\<close>

lemma df_getitem_columns:
  "set (concat (map (\<lambda>c. filter (\<lambda>col. fst col = c) X) cm)) \<subseteq> set X"
  "fst ` set (concat (map (\<lambda>c. filter (\<lambda>col. fst col = c) X) cm)) = set cm \<inter> fst ` set X"
  by force+

lemma df_getitem_order:
  assumes dx: "distinct (map fst X)" and sub: "set cm \<subseteq> fst ` set X"
  shows "map fst (concat (map (\<lambda>c. filter (\<lambda>col. fst col = c) X) cm)) = cm"
proof -
  have one: "map fst (filter (\<lambda>col. fst col = c) X) = [c]" if "c \<in> fst ` set X" for c
    using that dx
  proof (induction X)
    case Nil
    then show ?case by simp
  next
    case (Cons a X)
    show ?case
    proof (cases "fst a = c")
      case True
      then have "c \<notin> fst ` set X" using Cons.prems(2) by auto
      then have "filter (\<lambda>col. fst col = c) X = []" by (auto simp: filter_empty_conv)
      then show ?thesis using True by simp
    next
      case False
      then show ?thesis using Cons by auto
    qed
  qed
  show ?thesis using sub
  proof (induction cm)
    case Nil
    then show ?case by simp
  next
    case (Cons c cm)
    then show ?case using one[of c] by simp
  qed
qed

subsection \<open>Runs on the concrete inputs\<close>

lemmas engine_defs = entrenar_por_lotes_def warm_start_def indices_eval_def np_choice_def
  take_rows_def fit_ref_def log_event_def finalizar_def evaluar_modelo_def generar_informe_def
  batch_step_def batch_body_def slice_def clone_def Let_def crear_pipeline_incremental_def
  range_step.simps cv_unavailable_def upt_rec demo_params_def

lemma demo_run:
  "entrenar_por_lotes demo_lib demo_rng None [1, 2, 3] [1, 2, 3] 2 1 =
     Inr (1, \<lparr> heap = [\<lparr> params = demo_params, learned = Some 1 \<rparr>,
                        \<lparr> params = demo_params, learned = Some 2 \<rparr>],
               mejor_score = Fin (2 / 10), mejor_modelo = Some 1,
               trace = [FitCall 0 [0, 1, 2], EpochStart 1 1, FitCall 0 [2, 1], FitCall 1 [2, 1],
                        FitCall 0 [0], BestScore (Fin (2 / 10))] \<rparr>)"
  by (simp add: engine_defs demo_lib_def demo_rng_def)

lemma demo_warm:
  "warm_start demo_lib demo_rng None [1, 2, 3] [1, 2, 3] 2 = Inr demo_s0"
  "warm_start flaky_lib demo_rng None [1, 2, 3] [1, 2, 3] 2 = Inr demo_s0"
  by (simp_all add: engine_defs demo_lib_def flaky_lib_def demo_rng_def demo_s0_def)

lemma rng_ok_demo: "rng_ok demo_rng n"
  by (auto simp: rng_ok_def demo_rng_def)

lemma flaky_run:
  "entrenar_por_lotes flaky_lib demo_rng None [1, 2, 3] [1, 2, 3] 2 2 =
     Inr (1, \<lparr> heap = [\<lparr> params = demo_params, learned = None \<rparr>,
                        \<lparr> params = demo_params, learned = Some 2 \<rparr>],
               mejor_score = Fin (2 / 10), mejor_modelo = Some 1,
               trace = [FitCall 0 [0, 1, 2], EpochStart 1 2, FitCall 0 [2, 1], FitCall 1 [2, 1],
                        FitCall 0 [0],
                        BatchError 2 3 (ValueError, ''at least 2 samples are required''),
                        EpochStart 2 2, FitCall 0 [0, 1], FitCall 0 [2],
                        BatchError 2 3 (ValueError, ''at least 2 samples are required''),
                        BestScore (Fin (2 / 10))] \<rparr>)"
  by code_simp

lemma demo_run0:
  "entrenar_por_lotes demo_lib demo_rng None [1, 2, 3] [1, 2, 3] 2 0 =
     Inr (0, \<lparr> heap = [\<lparr> params = demo_params, learned = Some 3 \<rparr>],
               mejor_score = NegInf, mejor_modelo = None,
               trace = [FitCall 0 [0, 1, 2], BestScore NegInf] \<rparr>)"
  by (simp add: engine_defs demo_lib_def demo_rng_def)

lemma demo_step:
  "batch_step demo_lib 0 [1, 2, 3] [1, 2, 3] 2 0 2 [2, 1] [3, 2] [3, 2] demo_s0 =
     \<lparr> heap = [\<lparr> params = demo_params, learned = Some 2 \<rparr>,
               \<lparr> params = demo_params, learned = Some 2 \<rparr>],
       mejor_score = Fin (2 / 10), mejor_modelo = Some 1,
       trace = [FitCall 0 [0, 1, 2], FitCall 0 [2, 1], FitCall 1 [2, 1]] \<rparr>"
  by (simp add: engine_defs demo_lib_def demo_s0_def)




section \<open>The incremental engine: holdout, checkpoint, failures, termination\<close>

text \<open>
  C1, as the code has it. The holdout is drawn once, from all rows, and stays as it is for
  the run; its rows are not kept out of the batches. Every epoch cuts a permutation of all
  row indices into batches, so in a run that returns, every holdout row is a valid row
  index and is given to exactly one batch fit of the live pipeline in every epoch:
  \<open>n_epochs\<close> times in the run, and at least once as soon as there is an epoch.
\<close>

theorem holdout_rows_are_fitted_in_every_epoch:
  fixes L :: "('l, 'a, 'b) lib"
  assumes run: "entrenar_por_lotes L R modelo X y batch_size n_epochs = Inr (r, s)"
    and rng: "rng_ok R (length X)"
    and ev: "indices_eval R (length X) = Inr ev" and i: "i \<in> set ev"
  shows "i < length X \<and>
         count (mset (concat (fits_of 0 (loop_events (trace s))))) i = nat n_epochs \<and>
         (0 < n_epochs \<longrightarrow> (\<exists>b\<in>set (fits_of 0 (loop_events (trace s))). i \<in> set b))"
proof -
  let ?n = "length X"
  have "ev = draw R 1 ?n (min 1000 ?n)"
    using ev by (simp add: indices_eval_def np_choice_def)
  then have iX: "i < ?n"
    using i rng unfolding rng_ok_def by (meson lessThan_iff min.cobounded2 subsetD)
  from entrenar_por_lotes_Inr[OF run] obtain s0 idx_eval X_eval y_eval s1 where
    ws: "warm_start L R modelo X y batch_size = Inr s0" and
    ep: "epochs L R 0 X_eval y_eval X y (nat batch_size) n_epochs 0 (nat n_epochs)
              [0..<length X] s0 = Inr s1"
    by blast
  from warm_start_summary[OF ws] have inv0: "ckpt_inv 0 s0" by blast
  from epochs_summary[OF ep inv0] have B: "0 < nat n_epochs \<longrightarrow> 0 < nat batch_size" by blast
  have fits: "fits_of 0 (loop_events (trace s)) =
           all_batches R ?n (nat batch_size) 0 (nat n_epochs) [0..<?n]"
    using entrenar_por_lotes_trace[OF run] by blast
  have sh: "\<forall>e xs. mset (shuffle R e xs) = mset xs" using rng by (simp add: rng_ok_def)
  have one: "count (mset [0..<?n]) i = 1"
    using iX by (simp add: count_mset count_list_eq_length_filter[symmetric] distinct_count_atmost_1)
  have cnt: "count (mset (concat (fits_of 0 (loop_events (trace s))))) i = nat n_epochs"
  proof (cases "0 < nat n_epochs")
    case True
    then have "0 < nat batch_size" using B by blast
    from all_batches_count[OF sh this, of "[0..<?n]" ?n 0 "nat n_epochs"]
    show ?thesis using fits one by simp
  next
    case False
    then show ?thesis using fits by simp
  qed
  have ex: "\<exists>b\<in>set (fits_of 0 (loop_events (trace s))). i \<in> set b" if "0 < n_epochs"
  proof -
    have "0 < count (mset (concat (fits_of 0 (loop_events (trace s))))) i"
      using cnt that by simp
    then have "i \<in> set (concat (fits_of 0 (loop_events (trace s))))"
      by (metis count_greater_zero_iff set_mset_mset)
    then show ?thesis by auto
  qed
  show ?thesis using iX cnt ex by blast
qed

theorem holdout_rows_are_fitted_in_every_epoch_witness:
  "indices_eval demo_rng 3 = Inr [0, 1, 2] \<and>
   (case entrenar_por_lotes demo_lib demo_rng None [1, 2, 3] [1, 2, 3] 2 1 of
      Inr (r, s) \<Rightarrow> count (mset (concat (fits_of 0 (loop_events (trace s))))) 0 = 1
    | Inl e \<Rightarrow> False)"
proof -
  have ev: "indices_eval demo_rng (length [1, 2, 3 :: nat]) = Inr [0, 1, 2]"
    by (simp add: indices_eval_def np_choice_def demo_rng_def upt_rec)
  have i: "0 \<in> set [0, 1, 2 :: nat]" by simp
  have ev3: "indices_eval demo_rng 3 = Inr [0, 1, 2]"
    by (simp add: indices_eval_def np_choice_def demo_rng_def upt_rec)
  show ?thesis
    using holdout_rows_are_fitted_in_every_epoch[OF demo_run rng_ok_demo ev i] ev3
    unfolding demo_run by simp
qed

text \<open>
  C1 as stated fails: on three rows, with batches of two and one epoch, the holdout is the
  rows 0, 1 and 2, and the batch fits of the loop are on the rows 2, 1 and on the row 0.
\<close>

theorem holdout_rows_are_used_by_batch_fits:
  "indices_eval demo_rng 3 = Inr [0, 1, 2] \<and>
   (case entrenar_por_lotes demo_lib demo_rng None [1, 2, 3] [1, 2, 3] 2 1 of
      Inr (r, s) \<Rightarrow> fits_of 0 (loop_events (trace s)) = [[2, 1], [0]] \<and>
                    \<not> fits_avoid_holdout [0, 1, 2] (trace s)
    | Inl e \<Rightarrow> False)"
proof -
  have ev: "indices_eval demo_rng 3 = Inr [0, 1, 2]"
    by (simp add: indices_eval_def np_choice_def demo_rng_def upt_rec)
  show ?thesis
    unfolding demo_run using ev by (simp add: fits_avoid_holdout_def loop_events_def)
qed

text \<open>
  C2. When the fit of a batch on the live pipeline succeeds and its holdout score is
  strictly above the best score so far, the step stores the score, and the checkpoint
  becomes a new object: the clone of the live pipeline (same parameters, nothing learned)
  after one \<open>fit\<close> on that batch, so its learned state is what \<open>fit\<close> makes of an
  unfitted pipeline and the batch alone. Whatever the loops do afterwards (any further
  batches, any further epochs), that object stays as it is.
\<close>

theorem checkpoint_is_isolated_clone:
  fixes L :: "('l, 'a, 'b) lib" and s s' :: "'l estado"
  assumes inv: "ckpt_inv live s"
    and fit: "fit_effect L (params (heap s ! live)) (learned (heap s ! live)) Xb yb = (l1, None)"
    and score: "r2_predict L (params (heap s ! live)) l1 X_eval y_eval = Inr score"
    and better: "fgt score (mejor_score s)"
    and step: "s' = batch_step L live X_eval y_eval B st en idx Xb yb s"
  shows "mejor_modelo s' = Some (length (heap s)) \<and> mejor_score s' = score \<and>
         heap s' ! length (heap s) =
           \<lparr> params = params (heap s ! live),
             learned = fst (fit_effect L (params (heap s ! live)) None Xb yb) \<rparr> \<and>
         heap s' ! live = \<lparr> params = params (heap s ! live), learned = l1 \<rparr> \<and>
         (\<forall>Xe ye X y B' indices starts s''.
            run_batches L live Xe ye X y B' indices starts s' = Inr s'' \<longrightarrow>
            heap s'' ! length (heap s) = heap s' ! length (heap s)) \<and>
         (\<forall>R Xe ye X y B' E epoch k indices s''.
            epochs L R live Xe ye X y B' E epoch k indices s' = Inr s'' \<longrightarrow>
            heap s'' ! length (heap s) = heap s' ! length (heap s))"
proof -
  have live: "live < length (heap s)" using inv by (simp add: ckpt_inv_def)
  have a: "mejor_modelo s' = Some (length (heap s)) \<and> mejor_score s' = score \<and>
         heap s' ! length (heap s) =
           \<lparr> params = params (heap s ! live),
             learned = fst (fit_effect L (params (heap s ! live)) None Xb yb) \<rparr> \<and>
         heap s' ! live = \<lparr> params = params (heap s ! live), learned = l1 \<rparr> \<and>
         length (heap s') = Suc (length (heap s))"
    using live fit score better unfolding step batch_step_def batch_body_def
    by (auto simp: fit_ref_def log_event_def Let_def clone_def nth_append
             split: prod.splits option.splits if_splits)
  have inv': "ckpt_inv live s'"
    unfolding step by (rule batch_step_summary(1)[OF inv])
  have c: "length (heap s) < length (heap s')" "length (heap s) \<noteq> live"
    using a live by simp_all
  have rb: "heap s'' ! length (heap s) = heap s' ! length (heap s)"
    if "run_batches L live Xe ye X y B' indices starts s' = Inr s''"
    for Xe ye X y B' indices starts s''
    using run_batches_summary[OF that inv'] c by blast
  have ep: "heap s'' ! length (heap s) = heap s' ! length (heap s)"
    if "epochs L R live Xe ye X y B' E epoch k indices s' = Inr s''"
    for R Xe ye X y B' E epoch k indices s''
    using epochs_summary[OF that inv'] c by blast
  show ?thesis using a rb ep by blast
qed

theorem checkpoint_is_isolated_clone_witness:
  "mejor_modelo (batch_step demo_lib 0 [1, 2, 3] [1, 2, 3] 2 0 2 [2, 1] [3, 2] [3, 2] demo_s0)
     = Some 1 \<and>
   heap (batch_step demo_lib 0 [1, 2, 3] [1, 2, 3] 2 0 2 [2, 1] [3, 2] [3, 2] demo_s0) ! 1
     = \<lparr> params = demo_params, learned = Some 2 \<rparr> \<and>
   (case run_batches demo_lib 0 [1, 2, 3] [1, 2, 3] [1, 2, 3] [1, 2, 3] 2 [2, 1, 0] [2]
           (batch_step demo_lib 0 [1, 2, 3] [1, 2, 3] 2 0 2 [2, 1] [3, 2] [3, 2] demo_s0) of
      Inr s'' \<Rightarrow> heap s'' ! 0 = \<lparr> params = demo_params, learned = Some 1 \<rparr> \<and>
                 heap s'' ! 1 = \<lparr> params = demo_params, learned = Some 2 \<rparr>
    | Inl e \<Rightarrow> False)"
proof -
  let ?s' = "batch_step demo_lib 0 [1, 2, 3] [1, 2, 3] 2 0 2 [2, 1] [3, 2] [3, 2] demo_s0"
  let ?s'' = "\<lparr> heap = [\<lparr> params = demo_params, learned = Some 1 \<rparr>,
                          \<lparr> params = demo_params, learned = Some 2 \<rparr>],
                 mejor_score = Fin (2 / 10), mejor_modelo = Some 1,
                 trace = [FitCall 0 [0, 1, 2], FitCall 0 [2, 1], FitCall 1 [2, 1],
                          FitCall 0 [0]] \<rparr>"
  have inv: "ckpt_inv 0 demo_s0" by (simp add: ckpt_inv_def demo_s0_def)
  have fit: "fit_effect demo_lib (params (heap demo_s0 ! 0)) (learned (heap demo_s0 ! 0))
               [3, 2] [3, 2] = (Some 2, None)"
    by (simp add: demo_lib_def)
  have score: "r2_predict demo_lib (params (heap demo_s0 ! 0)) (Some 2) [1, 2, 3] [1, 2, 3]
                 = Inr (Fin (2 / 10))"
    by (simp add: demo_lib_def)
  have better: "fgt (Fin (2 / 10)) (mejor_score demo_s0)" by (simp add: demo_s0_def)
  have rb: "run_batches demo_lib 0 [1, 2, 3] [1, 2, 3] [1, 2, 3] [1, 2, 3] 2 [2, 1, 0] [2] ?s'
              = Inr ?s''"
    by (simp add: engine_defs demo_lib_def demo_s0_def)
  have len: "length (heap demo_s0) = 1" and p: "params (heap demo_s0 ! 0) = demo_params"
    and f: "fst (fit_effect demo_lib demo_params None [3, 2] [3, 2]) = Some 2"
    by (simp_all add: demo_s0_def demo_lib_def)
  note t = checkpoint_is_isolated_clone[OF inv fit score better refl,
             of 2 0 2 "[2, 1]", unfolded len p f]
  from t have h: "mejor_modelo ?s' = Some 1"
      "heap ?s' ! 1 = \<lparr> params = demo_params, learned = Some 2 \<rparr>"
      "heap ?s'' ! 1 = heap ?s' ! 1"
    using rb by auto
  show ?thesis unfolding rb using h by simp
qed

text \<open>
  C3. A run that returns went through the warm start, the draw of the holdout and the two
  loops, which ended in a state \<open>s1\<close>. What it returns is read off the fits that the
  loops made on objects other than the live pipeline, the fits of line 106, one for each
  checkpoint that a batch set. When there is none, no checkpoint was set, the best score
  is still minus infinity, and the live pipeline (reference 0) is returned. Otherwise the
  object of the last of these fits is the checkpoint, it is not the live pipeline, the
  best score is above minus infinity, and that object is returned. The reports change
  neither the checkpoint nor the best score, and the object returned is as the loops left
  it, except that the reports refit it on the holdout when they computed and wrote the
  metrics and line 80 of evaluacion.py found it without \<open>named_steps\<close> or with an
  imputer that was not fitted. And a batch step sets the checkpoint, to a new object,
  exactly when the fit of the live pipeline and the score both succeed and the score is
  above the best score.
\<close>

theorem entrenar_por_lotes_returns_checkpoint_or_live:
  fixes L :: "('l, 'a, 'b) lib" and s s' :: "'l estado"
  assumes run: "entrenar_por_lotes L R modelo X y batch_size n_epochs = Inr (r, s)"
  shows "(\<exists>s0 ev s1.
            warm_start L R modelo X y batch_size = Inr s0 \<and>
            indices_eval R (length X) = Inr ev \<and>
            epochs L R 0 (map (\<lambda>i. X ! i) ev) (map (\<lambda>i. y ! i) ev) X y (nat batch_size)
              n_epochs 0 (nat n_epochs) [0..<length X] s0 = Inr s1 \<and>
            trace s1 = trace s0 @ loop_events (trace s) \<and>
            (case ckpt_fits 0 (loop_events (trace s)) of
               [] \<Rightarrow> r = 0 \<and> mejor_modelo s1 = None \<and> mejor_score s1 = NegInf
             | c # cs \<Rightarrow> r = last (c # cs) \<and> r \<noteq> 0 \<and> mejor_modelo s1 = Some r \<and>
                         fgt (mejor_score s1) NegInf) \<and>
            r < length (heap s1) \<and>
            mejor_modelo s = mejor_modelo s1 \<and> mejor_score s = mejor_score s1 \<and>
            heap s =
              (if report_refits L (heap s1 ! r) (map (\<lambda>i. X ! i) ev) (map (\<lambda>i. y ! i) ev)
               then (heap s1)[r := (heap s1 ! r)\<lparr> learned :=
                       fst (fit_effect L (params (heap s1 ! r)) (learned (heap s1 ! r))
                              (map (\<lambda>i. X ! i) ev) (map (\<lambda>i. y ! i) ev)) \<rparr>]
               else heap s1)) \<and>
         (live < length (heap s') \<longrightarrow>
            mejor_modelo (batch_step L live X_eval y_eval B st en idx Xb yb s') =
              (case fit_effect L (params (heap s' ! live)) (learned (heap s' ! live)) Xb yb of
                 (l1, None) \<Rightarrow>
                   (case r2_predict L (params (heap s' ! live)) l1 X_eval y_eval of
                      Inr score \<Rightarrow> if fgt score (mejor_score s') then Some (length (heap s'))
                                   else mejor_modelo s'
                    | Inl e \<Rightarrow> mejor_modelo s')
               | (l1, Some e) \<Rightarrow> mejor_modelo s'))"
proof -
  from entrenar_por_lotes_phases[OF run] obtain s0 ev s1 where
    ws: "warm_start L R modelo X y batch_size = Inr s0" and
    ie: "indices_eval R (length X) = Inr ev" and
    ep: "epochs L R 0 (map (\<lambda>i. X ! i) ev) (map (\<lambda>i. y ! i) ev) X y (nat batch_size)
             n_epochs 0 (nat n_epochs) [0..<length X] s0 = Inr s1" and
    s: "s = finalizar L 0 ev (map (\<lambda>i. X ! i) ev) (map (\<lambda>i. y ! i) ev)
                 (log_event (BestScore (mejor_score s1)) s1)" and
    r: "r = (case mejor_modelo s of Some c \<Rightarrow> c | None \<Rightarrow> 0)" and
    tr: "trace s1 = trace s0 @ loop_events (trace s)"
    by blast
  let ?T = "loop_events (trace s)"
  let ?sb = "log_event (BestScore (mejor_score s1)) s1"
  from warm_start_summary[OF ws] have inv0: "ckpt_inv 0 s0" and m0: "mejor_modelo s0 = None"
    by blast+
  from epochs_summary[OF ep inv0] have inv1: "ckpt_inv 0 s1" by blast
  from epochs_ckpt[OF ep inv0] obtain T' where
    T': "trace s1 = trace s0 @ T'"
        "mejor_modelo s1 =
           (if ckpt_fits 0 T' = [] then mejor_modelo s0 else Some (last (ckpt_fits 0 T')))"
    by blast
  have "T' = ?T" using T'(1) tr by simp
  then have mm: "mejor_modelo s1 =
           (if ckpt_fits 0 ?T = [] then None else Some (last (ckpt_fits 0 ?T)))"
    using T'(2) m0 by simp
  from finalizar_summary[of L 0 ev "map (\<lambda>i. X ! i) ev" "map (\<lambda>i. y ! i) ev" ?sb] s
  have f: "mejor_modelo s = mejor_modelo s1" "mejor_score s = mejor_score s1"
    by simp_all
  have r1: "r = (case mejor_modelo s1 of Some c \<Rightarrow> c | None \<Rightarrow> 0)" using r f by simp
  have rl: "r < length (heap s1)"
    using inv1 r1 by (auto simp: ckpt_inv_def split: option.splits)
  have cs: "(case ckpt_fits 0 ?T of
               [] \<Rightarrow> r = 0 \<and> mejor_modelo s1 = None \<and> mejor_score s1 = NegInf
             | c # cs \<Rightarrow> r = last (c # cs) \<and> r \<noteq> 0 \<and> mejor_modelo s1 = Some r \<and>
                         fgt (mejor_score s1) NegInf)"
    using mm r1 inv1 by (auto simp: ckpt_inv_def split: list.splits option.splits)
  have mf: "(case mejor_modelo ?sb of Some c \<Rightarrow> c | None \<Rightarrow> 0) = r" using r1 by simp
  have hp: "heap s =
              (if report_refits L (heap s1 ! r) (map (\<lambda>i. X ! i) ev) (map (\<lambda>i. y ! i) ev)
               then (heap s1)[r := (heap s1 ! r)\<lparr> learned :=
                       fst (fit_effect L (params (heap s1 ! r)) (learned (heap s1 ! r))
                              (map (\<lambda>i. X ! i) ev) (map (\<lambda>i. y ! i) ev)) \<rparr>]
               else heap s1)"
    unfolding s finalizar_heap mf by simp
  have step: "live < length (heap s') \<longrightarrow>
            mejor_modelo (batch_step L live X_eval y_eval B st en idx Xb yb s') =
              (case fit_effect L (params (heap s' ! live)) (learned (heap s' ! live)) Xb yb of
                 (l1, None) \<Rightarrow>
                   (case r2_predict L (params (heap s' ! live)) l1 X_eval y_eval of
                      Inr score \<Rightarrow> if fgt score (mejor_score s') then Some (length (heap s'))
                                   else mejor_modelo s'
                    | Inl e \<Rightarrow> mejor_modelo s')
               | (l1, Some e) \<Rightarrow> mejor_modelo s')"
    using batch_step_mejor_modelo by blast
  show ?thesis using ws ie ep tr cs rl f hp step by blast
qed

theorem entrenar_por_lotes_returns_checkpoint_or_live_witness:
  "(case entrenar_por_lotes demo_lib demo_rng None [1, 2, 3] [1, 2, 3] 2 1 of
      Inr (r, s) \<Rightarrow> r = 1 \<and> ckpt_fits 0 (loop_events (trace s)) = [1] \<and>
                    heap s ! r = \<lparr> params = demo_params, learned = Some 2 \<rparr>
    | Inl e \<Rightarrow> False) \<and>
   (case entrenar_por_lotes demo_lib demo_rng None [1, 2, 3] [1, 2, 3] 2 0 of
      Inr (r, s) \<Rightarrow> r = 0 \<and> ckpt_fits 0 (loop_events (trace s)) = [] \<and>
                    heap s ! r = \<lparr> params = demo_params, learned = Some 3 \<rparr>
    | Inl e \<Rightarrow> False) \<and>
   mejor_modelo (batch_step demo_lib 0 [1, 2, 3] [1, 2, 3] 2 0 2 [2, 1] [3, 2] [3, 2] demo_s0)
     = Some 1"
proof -
  have live: "0 < length (heap demo_s0)" by (simp add: demo_s0_def)
  note t1 = entrenar_por_lotes_returns_checkpoint_or_live[OF demo_run,
              where live = 0 and s' = demo_s0 and X_eval = "[1, 2, 3]" and y_eval = "[1, 2, 3]"
                and B = 2 and st = 0 and en = 2 and idx = "[2, 1]" and Xb = "[3, 2]"
                and yb = "[3, 2]"]
  note t0 = entrenar_por_lotes_returns_checkpoint_or_live[OF demo_run0,
              where live = 0 and s' = demo_s0]
  show ?thesis
    using t1 t0 live unfolding demo_run demo_run0 demo_step
    by (simp add: loop_events_def)
qed

text \<open>
  C4, as the code has it. After the warm start the best score is minus infinity and there
  is no checkpoint: the warm-start model is never scored. From any state of the loop, the
  best score after any number of further epochs is greater than or equal to the best
  score before them.
\<close>

theorem mejor_score_never_decreases:
  "(warm_start L R modelo X y batch_size = Inr s0 \<longrightarrow>
      mejor_score s0 = NegInf \<and> mejor_modelo s0 = None \<and> ckpt_inv 0 s0) \<and>
   (ckpt_inv live s \<and> epochs L R live X_eval y_eval X y B E epoch k indices s = Inr s' \<longrightarrow>
      fge (mejor_score s') (mejor_score s) \<and> ckpt_inv live s')"
  using warm_start_summary[of L R modelo X y batch_size s0]
        epochs_summary[of L R live X_eval y_eval X y B E epoch k indices s s']
  by blast

theorem mejor_score_never_decreases_witness:
  "warm_start demo_lib demo_rng None [1, 2, 3] [1, 2, 3] 2 = Inr demo_s0 \<and>
   mejor_score demo_s0 = NegInf \<and>
   (case epochs demo_lib demo_rng 0 [1, 2, 3] [1, 2, 3] [1, 2, 3] [1, 2, 3] 2 1 0 1 [0, 1, 2]
           demo_s0 of
      Inr s' \<Rightarrow> mejor_score s' = Fin (2 / 10) \<and> fge (mejor_score s') (mejor_score demo_s0)
    | Inl e \<Rightarrow> False)"
proof -
  have ep: "epochs demo_lib demo_rng 0 [1, 2, 3] [1, 2, 3] [1, 2, 3] [1, 2, 3] 2 1 0 1 [0, 1, 2]
           demo_s0 =
     Inr \<lparr> heap = [\<lparr> params = demo_params, learned = Some 1 \<rparr>,
                   \<lparr> params = demo_params, learned = Some 2 \<rparr>],
            mejor_score = Fin (2 / 10), mejor_modelo = Some 1,
            trace = [FitCall 0 [0, 1, 2], EpochStart 1 1, FitCall 0 [2, 1], FitCall 1 [2, 1],
                     FitCall 0 [0]] \<rparr>"
    by (simp add: engine_defs demo_lib_def demo_rng_def demo_s0_def)
  have inv: "ckpt_inv 0 demo_s0" by (simp add: ckpt_inv_def demo_s0_def)
  show ?thesis
    using mejor_score_never_decreases[of demo_lib demo_rng None "[1, 2, 3]" "[1, 2, 3]" 2 demo_s0
            0 demo_s0 "[1, 2, 3]" "[1, 2, 3]" 2 1 0 1 "[0, 1, 2]"] inv
    unfolding ep demo_warm by (simp add: demo_s0_def fge_def)
qed

text \<open>
  C4 as stated fails: with a score that grows with the number of rows learned, the model
  after the warm start (three rows) scores 0.3 on the holdout and the checkpoint the run
  retains and returns (two rows) scores 0.2.
\<close>

theorem checkpoint_can_score_below_warm_start:
  "(case (warm_start demo_lib demo_rng None [1, 2, 3] [1, 2, 3] 2,
          entrenar_por_lotes demo_lib demo_rng None [1, 2, 3] [1, 2, 3] 2 1) of
      (Inr s0, Inr (r, s)) \<Rightarrow>
         mejor_modelo s = Some r \<and>
         r2_predict demo_lib (params (heap s0 ! 0)) (learned (heap s0 ! 0)) [1, 2, 3] [1, 2, 3]
           = Inr (Fin (3 / 10)) \<and>
         r2_predict demo_lib (params (heap s ! r)) (learned (heap s ! r)) [1, 2, 3] [1, 2, 3]
           = Inr (Fin (2 / 10)) \<and>
         \<not> fge (Fin (2 / 10)) (Fin (3 / 10))
    | _ \<Rightarrow> False)"
  unfolding demo_run demo_warm by (simp add: demo_s0_def demo_lib_def fge_def)




text \<open>
  C8, as the code has it. For \<open>n_epochs \<ge> 1\<close> and \<open>1 \<le> batch_size \<le> n_samples\<close>, with
  \<open>X\<close> and \<open>y\<close> of equal length, \<open>entrenar_por_lotes\<close> terminates. When the
  warm-start fit raises, that exception leaves the function. Otherwise the run returns a
  reference to an object of the store, after the live pipeline was fitted on all batches
  of all epochs, in order: there is one epoch line for every epoch, and
  \<open>n_epochs * ceil(n_samples / batch_size)\<close> batch fits in all.
\<close>

theorem entrenar_por_lotes_runs_all_epochs:
  fixes L :: "('l, 'a, 'b) lib"
  assumes E: "1 \<le> n_epochs" and B1: "1 \<le> batch_size" and Bn: "batch_size \<le> int (length X)"
    and len: "length y = length X" and rng: "rng_ok R (length X)"
  shows "(case snd (fit_effect L
                (params (case modelo of None \<Rightarrow> crear_pipeline_incremental | Some m \<Rightarrow> m))
                (learned (case modelo of None \<Rightarrow> crear_pipeline_incremental | Some m \<Rightarrow> m))
                (map (\<lambda>i. X ! i)
                   (draw R 0 (length X) (nat (min (batch_size * 10) (int (length X))))))
                (map (\<lambda>i. y ! i)
                   (draw R 0 (length X) (nat (min (batch_size * 10) (int (length X))))))) of
            Some e \<Rightarrow> entrenar_por_lotes L R modelo X y batch_size n_epochs = Inl e
          | None \<Rightarrow>
              (\<exists>r s. entrenar_por_lotes L R modelo X y batch_size n_epochs = Inr (r, s) \<and>
                 r < length (heap s) \<and>
                 fits_of 0 (loop_events (trace s)) =
                   all_batches R (length X) (nat batch_size) 0 (nat n_epochs) [0..<length X] \<and>
                 filter is_EpochStart (loop_events (trace s)) =
                   map (\<lambda>j. EpochStart (j + 1) n_epochs) [0..<nat n_epochs] \<and>
                 length (fits_of 0 (loop_events (trace s))) =
                   nat n_epochs * ((length X + nat batch_size - 1) div nat batch_size)))"
proof -
  have B: "0 < batch_size" using B1 by simp
  note wf = warm_start_fit[OF rng len B, of L modelo]
  obtain l ex where fit: "fit_effect L
                (params (case modelo of None \<Rightarrow> crear_pipeline_incremental | Some m \<Rightarrow> m))
                (learned (case modelo of None \<Rightarrow> crear_pipeline_incremental | Some m \<Rightarrow> m))
                (map (\<lambda>i. X ! i)
                   (draw R 0 (length X) (nat (min (batch_size * 10) (int (length X))))))
                (map (\<lambda>i. y ! i)
                   (draw R 0 (length X) (nat (min (batch_size * 10) (int (length X)))))) = (l, ex)"
    by (meson surj_pair)
  show ?thesis
  proof (cases ex)
    case (Some e)
    have "warm_start L R modelo X y batch_size = Inl e"
      using wf fit Some by simp
    then have "entrenar_por_lotes L R modelo X y batch_size n_epochs = Inl e"
      by (simp add: entrenar_por_lotes_def)
    then show ?thesis using fit Some by simp
  next
    case None
    from wf fit None obtain s0 where ws: "warm_start L R modelo X y batch_size = Inr s0"
      by simp
    from entrenar_por_lotes_total[OF ws rng len B, of n_epochs] obtain r s where
      run: "entrenar_por_lotes L R modelo X y batch_size n_epochs = Inr (r, s)" by blast
    note res = entrenar_por_lotes_result[OF run]
    note tr = entrenar_por_lotes_trace[OF run]
    have "length (fits_of 0 (loop_events (trace s))) =
            nat n_epochs * ((length X + nat batch_size - 1) div nat batch_size)"
      using tr B by (simp add: length_all_batches length_range_step)
    then show ?thesis using fit None run res tr by simp
  qed
qed

theorem entrenar_por_lotes_runs_all_epochs_witness:
  "(case entrenar_por_lotes flaky_lib demo_rng None [1, 2, 3] [1, 2, 3] 2 2 of
      Inr (r, s) \<Rightarrow> r = 1 \<and>
         fits_of 0 (loop_events (trace s)) = [[2, 1], [0], [0, 1], [2]] \<and>
         filter is_EpochStart (loop_events (trace s)) = [EpochStart 1 2, EpochStart 2 2]
    | Inl e \<Rightarrow> False) \<and>
   entrenar_por_lotes demo_lib demo_rng None [1, 2, 3] [1, 13, 3] 2 2 =
     Inl (ValueError, ''Input y contains NaN'')"
proof -
  have h: "(1::int) \<le> 2" "(2::int) \<le> int (length [1, 2, 3 :: nat])"
     "length [1, 2, 3 :: nat] = length [1, 2, 3 :: nat]" "rng_ok demo_rng (length [1, 2, 3 :: nat])"
     "length [1, 13, 3 :: nat] = length [1, 2, 3 :: nat]"
    by (simp_all add: rng_ok_demo)
  have ab: "all_batches demo_rng (length [1, 2, 3 :: nat]) (nat 2) 0 (nat 2)
              [0..<length [1, 2, 3 :: nat]] = [[2, 1], [0], [0, 1], [2]]"
    by code_simp
  have ep: "map (\<lambda>j. EpochStart (j + 1) 2) [0..<nat 2] = [EpochStart 1 2, EpochStart 2 2]"
    by code_simp
  have f1: "snd (fit_effect flaky_lib
                (params (case None of None \<Rightarrow> crear_pipeline_incremental | Some m \<Rightarrow> m))
                (learned (case None of None \<Rightarrow> crear_pipeline_incremental | Some m \<Rightarrow> m))
                (map (\<lambda>i. [1, 2, 3 :: nat] ! i)
                   (draw demo_rng 0 (length [1, 2, 3 :: nat])
                      (nat (min (2 * 10) (int (length [1, 2, 3 :: nat]))))))
                (map (\<lambda>i. [1, 2, 3 :: nat] ! i)
                   (draw demo_rng 0 (length [1, 2, 3 :: nat])
                      (nat (min (2 * 10) (int (length [1, 2, 3 :: nat]))))))) = None"
    by (simp add: flaky_lib_def demo_lib_def demo_rng_def upt_rec)
  have f2: "snd (fit_effect demo_lib
                (params (case None of None \<Rightarrow> crear_pipeline_incremental | Some m \<Rightarrow> m))
                (learned (case None of None \<Rightarrow> crear_pipeline_incremental | Some m \<Rightarrow> m))
                (map (\<lambda>i. [1, 2, 3 :: nat] ! i)
                   (draw demo_rng 0 (length [1, 2, 3 :: nat])
                      (nat (min (2 * 10) (int (length [1, 2, 3 :: nat]))))))
                (map (\<lambda>i. [1, 13, 3 :: nat] ! i)
                   (draw demo_rng 0 (length [1, 2, 3 :: nat])
                      (nat (min (2 * 10) (int (length [1, 2, 3 :: nat]))))))) =
              Some (ValueError, ''Input y contains NaN'')"
    by (simp add: demo_lib_def demo_rng_def upt_rec)
  note a = entrenar_por_lotes_runs_all_epochs[OF h(1) h(1) h(2) h(3) h(4),
             of flaky_lib None, unfolded f1 ab ep flaky_run]
  note b = entrenar_por_lotes_runs_all_epochs[OF h(1) h(1) h(2) h(5) h(4),
             of demo_lib None, unfolded f2]
  show ?thesis using a b unfolding flaky_run by auto
qed

text \<open>
  C8 as stated fails: a warm-start subsample whose targets make \<open>fit\<close> raise ends the
  run with that exception, for an epoch count and a batch size in the stated range.
\<close>

theorem entrenar_por_lotes_warm_start_failure_raises:
  "entrenar_por_lotes demo_lib demo_rng None [1, 2, 3] [1, 13, 3] 1 1 =
     Inl (ValueError, ''Input y contains NaN'') \<and>
   (1 :: int) \<le> int (length [1, 2, 3 :: nat]) \<and>
   length [1, 2, 3 :: nat] = length [1, 13, 3 :: nat] \<and> rng_ok demo_rng 3"
proof -
  have "entrenar_por_lotes demo_lib demo_rng None [1, 2, 3] [1, 13, 3] 1 1 =
     Inl (ValueError, ''Input y contains NaN'')"
    by (simp add: engine_defs demo_lib_def demo_rng_def)
  then show ?thesis using rng_ok_demo[of 3] by simp
qed

section \<open>The training script: stored model, drift, imputation\<close>

text \<open>
  C5, as the code has it. When a stored model is loaded, the arity test is guarded by
  \<open>hasattr(modelo, 'n_outputs_')\<close>: a model that has the attribute with a value other
  than \<open>y.shape[1]\<close> is replaced by a fresh \<open>crear_pipeline_multioutput()\<close> and the
  mismatch is printed; a model that has the attribute with the same value, or has no such
  attribute, is the one handed to the incremental training.
\<close>

theorem arity_guard_selects_pipeline:
  assumes "archivo = Some (Inr d)" and "b_modelo d = Some m"
    and "main_incremental n_outputs_attr ft archivo X y_shape cols = Inr (m', X', av)"
  shows "(case n_outputs_attr m of
            Some k \<Rightarrow> 1 < length y_shape \<and>
               (if k \<noteq> y_shape ! 1
                then m' = crear_pipeline_multioutput \<and> ArityMismatch k (y_shape ! 1) \<in> set av
                else m' = m)
          | None \<Rightarrow> m' = m)"
  using assms
  by (auto simp: main_incremental_def imputar_valores_faltantes_def
           split: option.splits sum.splits if_splits)

theorem arity_guard_selects_pipeline_witness:
  "main_incremental demo_n_outputs failing_imputer
      (Some (Inr \<lparr> b_modelo = Some demo_stored, b_columnas = None \<rparr>)) demo_df [2, 3]
      [''t1'', ''t2'', ''t3''] =
     Inr (crear_pipeline_multioutput, DataFrame demo_df, [ArityMismatch 2 3])"
  using arity_guard_selects_pipeline
     [of "Some (Inr \<lparr> b_modelo = Some demo_stored, b_columnas = None \<rparr>)"
         "\<lparr> b_modelo = Some demo_stored, b_columnas = None \<rparr>" demo_stored demo_n_outputs
         failing_imputer demo_df "[2, 3]" "[''t1'', ''t2'', ''t3'']"
         crear_pipeline_multioutput "DataFrame demo_df" "[ArityMismatch 2 3]"]
  by (simp add: main_incremental_def demo_n_outputs_def imputar_valores_faltantes_def
        demo_stored_def)

text \<open>
  C5 as stated fails: a stored pipeline fitted on two targets, loaded for data with three
  target columns, is reused as it is, since a pipeline has no \<open>n_outputs_\<close>.
\<close>

theorem arity_mismatch_reuses_stored_pipeline:
  "main_incremental pipeline_n_outputs failing_imputer
      (Some (Inr \<lparr> b_modelo = Some demo_stored, b_columnas = None \<rparr>)) demo_df [2, 3]
      [''t1'', ''t2'', ''t3''] = Inr (demo_stored, DataFrame demo_df, []) \<and>
   learned demo_stored = Some 2 \<and> [2, 3 :: nat] ! 1 = 3 \<and>
   demo_stored \<noteq> crear_pipeline_multioutput"
  by (simp add: main_incremental_def pipeline_n_outputs_def imputar_valores_faltantes_def
        demo_stored_def crear_pipeline_multioutput_def)

text \<open>
  C6, as the code has it. When the stored column list is not empty and differs, as a set,
  from the current list \<open>columnas_procesadas\<close>, the drift is printed (the names missing
  now, the names new now) and \<open>X[columnas_modelo]\<close> is evaluated. When every stored
  name is a column of the current feature frame, the frame handed on consists of the
  columns of the current frame that the stored list names, in the order of the stored
  list: the other current columns are dropped. When a stored name is not a column of the
  current frame, the script ends with KeyError, after the drift was printed. In no case is
  a column created: every column of the selection is a column of the current frame, with
  its cells.
\<close>

theorem drift_alignment_selects_stored_columns:
  assumes "archivo = Some (Inr d)" and "b_modelo d = Some m" and "b_columnas d = Some cm"
    and "cm \<noteq> []" and "set cm \<noteq> set cols"
    and "n_outputs_attr m = None \<or> 1 < length y_shape"
  shows "\<exists>m' av.
           main_incremental n_outputs_attr ft archivo X y_shape cols =
             (if set cm \<subseteq> fst ` set X
              then Inr (m', DataFrame (concat (map (\<lambda>c. filter (\<lambda>col. fst col = c) X) cm)),
                        av @ [FeatureMismatch (set cm - set cols) (set cols - set cm)])
              else Inl ((KeyError, ''not in index''),
                        av @ [FeatureMismatch (set cm - set cols) (set cols - set cm)])) \<and>
           set (concat (map (\<lambda>c. filter (\<lambda>col. fst col = c) X) cm)) \<subseteq> set X \<and>
           fst ` set (concat (map (\<lambda>c. filter (\<lambda>col. fst col = c) X) cm)) =
             set cm \<inter> fst ` set X \<and>
           (distinct (map fst X) \<and> set cm \<subseteq> fst ` set X \<longrightarrow>
              map fst (concat (map (\<lambda>c. filter (\<lambda>col. fst col = c) X) cm)) = cm)"
proof -
  let ?X' = "concat (map (\<lambda>c. filter (\<lambda>col. fst col = c) X) cm)"
  let ?fm = "FeatureMismatch (set cm - set cols) (set cols - set cm)"
  have g: "df_getitem X cm =
             (if set cm \<subseteq> fst ` set X then Inr ?X' else Inl (KeyError, ''not in index''))"
    by (auto simp: df_getitem_def list_all_iff)
  have "\<exists>m' av. main_incremental n_outputs_attr ft archivo X y_shape cols =
             (if set cm \<subseteq> fst ` set X then Inr (m', DataFrame ?X', av @ [?fm])
              else Inl ((KeyError, ''not in index''), av @ [?fm]))"
  proof (cases "set cm \<subseteq> fst ` set X")
    case True
    then have g': "df_getitem X cm = Inr ?X'" using g by simp
    show ?thesis
      using assms g' True
      by (auto simp: main_incremental_def imputar_valores_faltantes_def
               split: option.splits sum.splits if_splits)
  next
    case False
    then have g': "df_getitem X cm = Inl (KeyError, ''not in index'')" using g by simp
    show ?thesis
      using assms g' False
      by (auto simp: main_incremental_def imputar_valores_faltantes_def
               split: option.splits sum.splits if_splits)
  qed
  then show ?thesis using df_getitem_columns[of X cm] df_getitem_order[of X cm] by blast
qed

theorem drift_alignment_selects_stored_columns_witness:
  "(\<exists>m' av. main_incremental pipeline_n_outputs failing_imputer
      (Some (Inr \<lparr> b_modelo = Some demo_stored, b_columnas = Some [''users'', ''sessions''] \<rparr>))
      demo_df [2, 1] [''conversions''] =
        Inr (m', DataFrame [(''users'', [Some 2, Some 3]), (''sessions'', [Some 1, None])],
             av @ [FeatureMismatch (set [''users'', ''sessions''] - set [''conversions''])
                     (set [''conversions''] - set [''users'', ''sessions''])])) \<and>
   (\<exists>m' av. main_incremental pipeline_n_outputs failing_imputer
      (Some (Inr \<lparr> b_modelo = Some demo_stored,
                    b_columnas = Some [''sessions'', ''conversions''] \<rparr>))
      demo_df [2, 1] [''conversions''] =
        Inl ((KeyError, ''not in index''),
             av @ [FeatureMismatch (set [''sessions'', ''conversions''] - set [''conversions''])
                     (set [''conversions''] - set [''sessions'', ''conversions''])]))"
proof -
  let ?d = "\<lparr> b_modelo = Some demo_stored, b_columnas = Some [''users'', ''sessions''] \<rparr>"
  let ?d2 = "\<lparr> b_modelo = Some demo_stored,
               b_columnas = Some [''sessions'', ''conversions''] \<rparr>"
  have h2: "b_modelo ?d = Some demo_stored" "b_modelo ?d2 = Some demo_stored" by simp_all
  have h3: "b_columnas ?d = Some [''users'', ''sessions'']"
    "b_columnas ?d2 = Some [''sessions'', ''conversions'']" by simp_all
  have h4: "[''users'', ''sessions''] \<noteq> []" "[''sessions'', ''conversions''] \<noteq> []"
    by simp_all
  have h5: "set [''users'', ''sessions''] \<noteq> set [''conversions'']"
  proof
    assume h: "set [''users'', ''sessions''] = set [''conversions'']"
    have "''users'' \<in> set [''users'', ''sessions'']" by simp
    then have "''users'' \<in> set [''conversions'']" unfolding h .
    then show False by simp
  qed
  have h5': "set [''sessions'', ''conversions''] \<noteq> set [''conversions'']"
  proof
    assume h: "set [''sessions'', ''conversions''] = set [''conversions'']"
    have "''sessions'' \<in> set [''sessions'', ''conversions'']" by simp
    then have "''sessions'' \<in> set [''conversions'']" unfolding h .
    then show False by simp
  qed
  have h6: "pipeline_n_outputs demo_stored = None \<or> 1 < length [2, 1 :: nat]"
    by (simp add: pipeline_n_outputs_def)
  have h7: "set [''users'', ''sessions''] \<subseteq> fst ` set demo_df"
    by (simp add: demo_df_def)
  have h7': "\<not> set [''sessions'', ''conversions''] \<subseteq> fst ` set demo_df"
    by (simp add: demo_df_def)
  have ev: "concat (map (\<lambda>c. filter (\<lambda>col. fst col = c) demo_df) [''users'', ''sessions''])
            = [(''users'', [Some 2, Some 3]), (''sessions'', [Some 1, None])]"
    by (simp add: demo_df_def)
  note a = drift_alignment_selects_stored_columns
            [of "Some (Inr ?d)" ?d demo_stored "[''users'', ''sessions'']"
                "[''conversions'']" pipeline_n_outputs "[2, 1]" failing_imputer demo_df,
             OF refl h2(1) h3(1) h4(1) h5 h6]
  note b = drift_alignment_selects_stored_columns
            [of "Some (Inr ?d2)" ?d2 demo_stored "[''sessions'', ''conversions'']"
                "[''conversions'']" pipeline_n_outputs "[2, 1]" failing_imputer demo_df,
             OF refl h2(2) h3(2) h4(2) h5' h6]
  have a': "\<exists>m' av. main_incremental pipeline_n_outputs failing_imputer (Some (Inr ?d))
      demo_df [2, 1] [''conversions''] =
        Inr (m', DataFrame [(''users'', [Some 2, Some 3]), (''sessions'', [Some 1, None])],
             av @ [FeatureMismatch (set [''users'', ''sessions''] - set [''conversions''])
                     (set [''conversions''] - set [''users'', ''sessions''])])"
    using a unfolding ev if_P[OF h7] by blast
  have b': "\<exists>m' av. main_incremental pipeline_n_outputs failing_imputer (Some (Inr ?d2))
      demo_df [2, 1] [''conversions''] =
        Inl ((KeyError, ''not in index''),
             av @ [FeatureMismatch (set [''sessions'', ''conversions''] - set [''conversions''])
                     (set [''conversions''] - set [''sessions'', ''conversions''])])"
    using b unfolding if_not_P[OF h7'] by blast
  show ?thesis using a' b' by blast
qed

text \<open>
  C6 as stated fails: the stored list is the target list of the earlier run, and a name
  of it that is still a target now is not a column of the feature frame, so
  \<open>X[columnas_modelo]\<close> raises KeyError after the drift was printed.
\<close>

theorem drift_missing_column_raises:
  "main_incremental pipeline_n_outputs failing_imputer
      (Some (Inr \<lparr> b_modelo = Some demo_stored,
                    b_columnas = Some [''sessions'', ''conversions''] \<rparr>)) demo_df [2, 1]
      [''conversions''] =
     Inl ((KeyError, ''not in index''),
          [FeatureMismatch (set [''sessions'', ''conversions''] - set [''conversions''])
             (set [''conversions''] - set [''sessions'', ''conversions''])])"
proof -
  have ne: "set [''sessions'', ''conversions''] \<noteq> set [''conversions'']"
  proof
    assume h: "set [''sessions'', ''conversions''] = set [''conversions'']"
    have "''sessions'' \<in> set [''sessions'', ''conversions'']" by simp
    then have "''sessions'' \<in> set [''conversions'']" unfolding h .
    then show False by simp
  qed
  have g: "df_getitem demo_df [''sessions'', ''conversions''] = Inl (KeyError, ''not in index'')"
    by (simp add: df_getitem_def demo_df_def)
  show ?thesis
    unfolding main_incremental_def
    by (simp add: pipeline_n_outputs_def g ne del: set_simps list.set)
qed

text \<open>
  C10. \<open>imputar_valores_faltantes\<close> gives back every input that is not a numpy array as it
  is, and applies the mean imputer to a numpy array only. The script always passes a
  DataFrame (the current frame, or its columns selected by the stored list), so the
  matrix handed to the engine is that frame and the result does not depend on the imputer.
\<close>

theorem imputar_only_numpy_arrays:
  "(case X of
      NdArray a \<Rightarrow> imputar_valores_faltantes ft X =
                     (case ft a of Inl e \<Rightarrow> Inl e | Inr a' \<Rightarrow> Inr (NdArray a'))
    | _ \<Rightarrow> imputar_valores_faltantes ft X = Inr X) \<and>
   (main_incremental n_outputs_attr ft archivo Xd y_shape cols = Inr (m, X2, av) \<longrightarrow>
      (\<exists>d. X2 = DataFrame d \<and> set d \<subseteq> set Xd) \<and>
      main_incremental n_outputs_attr ft' archivo Xd y_shape cols = Inr (m, X2, av))"
  by (auto simp: imputar_valores_faltantes_def main_incremental_def df_getitem_def
           split: tabular.splits sum.splits option.splits if_splits)

theorem imputar_only_numpy_arrays_witness:
  "imputar_valores_faltantes failing_imputer (DataFrame demo_df) = Inr (DataFrame demo_df) \<and>
   main_incremental pipeline_n_outputs failing_imputer None demo_df [2, 1] [''t1''] =
     Inr (crear_pipeline_multioutput :: nat estimator, DataFrame demo_df, []) \<and>
   main_incremental pipeline_n_outputs Inr None demo_df [2, 1] [''t1''] =
     Inr (crear_pipeline_multioutput :: nat estimator, DataFrame demo_df, [])"
  using imputar_only_numpy_arrays
     [where X = "DataFrame demo_df" and ft = failing_imputer
        and n_outputs_attr = pipeline_n_outputs and archivo = None and Xd = demo_df
        and y_shape = "[2, 1]" and cols = "[''t1'']"
        and m = "crear_pipeline_multioutput :: nat estimator" and ?X2.0 = "DataFrame demo_df"
        and av = "[]" and ft' = Inr]
  by (simp add: main_incremental_def imputar_valores_faltantes_def)

section \<open>The evaluator\<close>

text \<open>
  C9, as the code has it. \<open>evaluar_modelo\<close> never raises on a failure of the
  cross-validation: the entry \<open>cv\<close> then holds None for each metric and the message. A
  failure of the holdout evaluation is recorded as None metrics when it is a ValueError;
  an exception of any other class leaves \<open>evaluar_modelo\<close>, and that is the only way
  it raises.
\<close>

theorem evaluar_modelo_failure_handling:
  "(evaluar_modelo L m X y X_val y_val cv = Inl e \<longrightarrow>
      \<not> is_ValueError e \<and>
      (\<exists>Xv yv. X_val = Some Xv \<and> y_val = Some yv \<and>
               val_block L (params m) (learned m) Xv yv = Inl e)) \<and>
   (evaluar_modelo L m X y X_val y_val cv = Inr r \<longrightarrow>
      map_of r ''cv'' = Some (case cv_block L (params m) (learned m) X y cv of
                                Inr c \<Rightarrow> cv_entry c | Inl e' \<Rightarrow> cv_unavailable e') \<and>
      (case (X_val, y_val) of
         (Some Xv, Some yv) \<Rightarrow>
            map_of r ''validation'' =
              Some (case val_block L (params m) (learned m) Xv yv of
                      Inr v \<Rightarrow> val_entry v | Inl e' \<Rightarrow> val_unavailable)
       | _ \<Rightarrow> map fst r = [''cv''])) \<and>
   (\<forall>Xv yv e'.
      X_val = Some Xv \<and> y_val = Some yv \<and>
      val_block L (params m) (learned m) Xv yv = Inl e' \<longrightarrow>
      evaluar_modelo L m X y X_val y_val cv =
        (if is_ValueError e'
         then Inr [(''cv'', (case cv_block L (params m) (learned m) X y cv of
                               Inr c \<Rightarrow> cv_entry c | Inl e'' \<Rightarrow> cv_unavailable e'')),
                   (''validation'', val_unavailable)]
         else Inl e'))"
  by (auto simp: evaluar_modelo_def Let_def split: option.splits sum.splits if_splits)

theorem evaluar_modelo_failure_handling_witness:
  "evaluar_modelo demo_lib demo_stored [1] [1] (Some [2]) (Some [2, 3]) 5 =
     Inr [(''cv'', cv_unavailable (ValueError, ''n_splits greater than samples'')),
          (''validation'', val_unavailable)] \<and>
   evaluar_modelo demo_lib demo_stored [1] [1] (Some [99]) (Some [2]) 5 =
     Inl (TypeError, ''float() argument must be a string or a real number'')"
proof -
  have h1: "Some [2] = Some [2 :: nat] \<and> Some [2, 3] = Some [2, 3 :: nat] \<and>
            val_block demo_lib (params demo_stored) (learned demo_stored) [2] [2, 3] =
              Inl (ValueError, ''inconsistent numbers of samples'')"
    by (simp add: demo_lib_def)
  have h2: "Some [99] = Some [99 :: nat] \<and> Some [2] = Some [2 :: nat] \<and>
            val_block demo_lib (params demo_stored) (learned demo_stored) [99] [2] =
              Inl (TypeError, ''float() argument must be a string or a real number'')"
    by (simp add: demo_lib_def)
  note a = evaluar_modelo_failure_handling[THEN conjunct2, THEN conjunct2, rule_format, OF h1,
             of "[1]" "[1]" 5]
  note b = evaluar_modelo_failure_handling[THEN conjunct2, THEN conjunct2, rule_format, OF h2,
             of "[1]" "[1]" 5]
  show ?thesis using a b by (simp add: demo_lib_def)
qed

text \<open>
  C9 as stated fails: on a fitted pipeline, a holdout with a cell that is not a number
  makes the prediction raise a TypeError, which is not recorded: the exception leaves
  \<open>evaluar_modelo\<close>.
\<close>

theorem evaluar_modelo_holdout_typeerror_raises:
  "evaluar_modelo demo_lib demo_stored [1] [1] (Some [99, 1]) (Some [2, 3]) 5 =
     Inl (TypeError, ''float() argument must be a string or a real number'')"
  by (simp add: evaluar_modelo_def demo_lib_def demo_stored_def)

end
